theory Spec2Isabelle
  imports Main "HOL-Library.Sublist"
begin

section \<open>JavaScript values\<close>

text \<open>
  The client is written in JavaScript, so its inputs are dynamically typed. A value is one
  of the shapes below. \<open>JNum n\<close> is a number whose value is the integer \<open>n\<close>
  (millisecond counts, second counts, status codes); numbers with a fractional part and the
  infinities are outside the model. \<open>JObj\<close> lists the own properties of a plain object
  in insertion order, each key once. \<open>JFun name\<close> is a built-in function.
\<close>

datatype jsval =
    JUndefined
  | JNull
  | JBool bool
  | JNum int
  | JNaN
  | JStr string
  | JArr "jsval list"
  | JObj "(string \<times> jsval) list"
  | JFun string

text \<open>An exception object: \<open>new Error(message)\<close>, or the engine's own \<open>TypeError\<close>.\<close>

datatype js_error = Error string | TypeError string

fun error_message :: "js_error \<Rightarrow> string" where
  "error_message (Error m) = m"
| "error_message (TypeError m) = m"

text \<open>A caught exception seen as a value: an object whose only probed field is \<open>message\<close>.\<close>

definition error_value :: "js_error \<Rightarrow> jsval" where
  "error_value e = JObj [(''message'', JStr (error_message e))]"

subsection \<open>Conversions\<close>

definition digit_char :: "nat \<Rightarrow> char" where
  "digit_char d = ''0123456789'' ! d"

text \<open>
  The decimal digits of a natural number, most significant first, put in front of
  \<open>rest\<close>; \<open>String(n)\<close> for an integer \<open>n\<close> is the digits of its magnitude after
  a minus sign when it is negative.
\<close>

function decimal :: "nat \<Rightarrow> string \<Rightarrow> string" where
  "decimal n rest =
     (if n < 10 then digit_char n # rest
      else decimal (n div 10) (digit_char (n mod 10) # rest))"
  by pat_completeness auto
termination
  by (relation "measure fst") auto

declare decimal.simps [simp del]

definition number_toString :: "int \<Rightarrow> string" where
  "number_toString i =
     (if 0 \<le> i then decimal (nat i) [] else CHR ''-'' # decimal (nat (- i)) [])"

fun js_join :: "string \<Rightarrow> string list \<Rightarrow> string" where
  "js_join sep [] = []"
| "js_join sep [x] = x"
| "js_join sep (x # y # ys) = x @ sep @ js_join sep (y # ys)"

text \<open>\<open>Boolean(v)\<close>: what \<open>!v\<close>, \<open>v && ...\<close>, \<open>v || ...\<close> and \<open>v ? ... : ...\<close> test.\<close>

fun truthy :: "jsval \<Rightarrow> bool" where
  "truthy JUndefined = False"
| "truthy JNull = False"
| "truthy (JBool b) = b"
| "truthy (JNum n) = (n \<noteq> 0)"
| "truthy JNaN = False"
| "truthy (JStr s) = (s \<noteq> [])"
| "truthy (JArr xs) = True"
| "truthy (JObj kvs) = True"
| "truthy (JFun f) = True"

text \<open>\<open>a || b\<close> for operands whose evaluation cannot throw.\<close>

definition js_or :: "jsval \<Rightarrow> jsval \<Rightarrow> jsval" where
  "js_or a b = (if truthy a then a else b)"

text \<open>\<open>String(v)\<close>, which is also what a template literal \<open>`${v}`\<close> inserts.\<close>

fun toString :: "jsval \<Rightarrow> string" where
  "toString JUndefined = ''undefined''"
| "toString JNull = ''null''"
| "toString (JBool b) = (if b then ''true'' else ''false'')"
| "toString (JNum n) = number_toString n"
| "toString JNaN = ''NaN''"
| "toString (JStr s) = s"
| "toString (JArr xs) =
     js_join '','' (map (\<lambda>x. if x = JUndefined \<or> x = JNull then [] else toString x) xs)"
| "toString (JObj kvs) = ''[object Object]''"
| "toString (JFun f) = ''function '' @ f @ ''() { [native code] }''"

text \<open>
  \<open>Number(v)\<close>, as the arithmetic operators apply it. A string is read as a number when it
  is empty (zero) or a plain run of decimal digits; the other spellings JavaScript accepts
  (surrounding blanks, a sign, a fraction, an exponent, a radix prefix, \<open>Infinity\<close>) are
  outside the model and no theorem below relies on them.
\<close>

definition is_digit :: "char \<Rightarrow> bool" where
  "is_digit c = (c \<in> set ''0123456789'')"

definition digit_val :: "char \<Rightarrow> nat" where
  "digit_val c = of_char c - 48"

definition nat_of_digits :: "string \<Rightarrow> nat" where
  "nat_of_digits s = foldl (\<lambda>acc c. 10 * acc + digit_val c) 0 s"

definition string_toNumber :: "string \<Rightarrow> jsval" where
  "string_toNumber s = (if list_all is_digit s then JNum (int (nat_of_digits s)) else JNaN)"

fun toNumber :: "jsval \<Rightarrow> jsval" where
  "toNumber JUndefined = JNaN"
| "toNumber JNull = JNum 0"
| "toNumber (JBool b) = JNum (if b then 1 else 0)"
| "toNumber (JNum n) = JNum n"
| "toNumber JNaN = JNaN"
| "toNumber (JStr s) = string_toNumber s"
| "toNumber (JArr xs) = string_toNumber (toString (JArr xs))"
| "toNumber (JObj kvs) = JNaN"
| "toNumber (JFun f) = JNaN"

text \<open>Arithmetic on numbers: \<open>NaN\<close> is contagious.\<close>

fun num_binop :: "(int \<Rightarrow> int \<Rightarrow> int) \<Rightarrow> jsval \<Rightarrow> jsval \<Rightarrow> jsval" where
  "num_binop f (JNum a) (JNum b) = JNum (f a b)"
| "num_binop f a b = JNaN"

definition js_sub :: "jsval \<Rightarrow> jsval \<Rightarrow> jsval" where
  "js_sub a b = num_binop (\<lambda>x y. x - y) (toNumber a) (toNumber b)"

definition js_mul :: "jsval \<Rightarrow> jsval \<Rightarrow> jsval" where
  "js_mul a b = num_binop (\<lambda>x y. x * y) (toNumber a) (toNumber b)"

text \<open>
  \<open>a + b\<close>: objects, arrays and functions are first turned into strings; if either side
  is then a string the result is the concatenation, otherwise the numeric sum.
\<close>

fun toPrimitive :: "jsval \<Rightarrow> jsval" where
  "toPrimitive (JArr xs) = JStr (toString (JArr xs))"
| "toPrimitive (JObj kvs) = JStr (toString (JObj kvs))"
| "toPrimitive (JFun f) = JStr (toString (JFun f))"
| "toPrimitive v = v"

fun is_JStr :: "jsval \<Rightarrow> bool" where
  "is_JStr (JStr s) = True"
| "is_JStr v = False"

definition js_add :: "jsval \<Rightarrow> jsval \<Rightarrow> jsval" where
  "js_add a b =
     (let pa = toPrimitive a; pb = toPrimitive b
      in if is_JStr pa \<or> is_JStr pb then JStr (toString pa @ toString pb)
         else num_binop (\<lambda>x y. x + y) (toNumber pa) (toNumber pb))"

text \<open>\<open>a > b\<close> where the right operand is a number: the left one is converted.\<close>

fun num_gt :: "jsval \<Rightarrow> jsval \<Rightarrow> bool" where
  "num_gt (JNum a) (JNum b) = (a > b)"
| "num_gt a b = False"

definition js_gt :: "jsval \<Rightarrow> jsval \<Rightarrow> bool" where
  "js_gt a b = num_gt (toNumber (toPrimitive a)) (toNumber (toPrimitive b))"

subsection \<open>Property reads\<close>

text \<open>
  \<open>v.k\<close>. Reading a property of \<open>undefined\<close> or \<open>null\<close> throws a
  \<open>TypeError\<close>; any other value answers, with \<open>undefined\<close> when it has no such
  property. The client reads only field names that no built-in prototype defines, so own
  properties decide the answer.
\<close>

fun getProp :: "jsval \<Rightarrow> string \<Rightarrow> js_error + jsval" where
  "getProp JUndefined k =
     Inl (TypeError (''Cannot read properties of undefined (reading '' @ [CHR 0x27] @ k @ [CHR 0x27] @ '')''))"
| "getProp JNull k =
     Inl (TypeError (''Cannot read properties of null (reading '' @ [CHR 0x27] @ k @ [CHR 0x27] @ '')''))"
| "getProp (JObj kvs) k = Inr (case map_of kvs k of Some v \<Rightarrow> v | None \<Rightarrow> JUndefined)"
| "getProp v k = Inr JUndefined"

text \<open>
  \<open>v.includes(p)\<close> with a string argument: a substring test on a string, a membership
  test on an array, and a \<open>TypeError\<close> on everything else (no other value has a
  callable \<open>includes\<close>).
\<close>

fun js_includes :: "jsval \<Rightarrow> string \<Rightarrow> js_error + bool" where
  "js_includes (JStr s) p = Inr (sublist p s)"
| "js_includes (JArr xs) p = Inr (JStr p \<in> set xs)"
| "js_includes JUndefined p =
     Inl (TypeError ''Cannot read properties of undefined (reading 'includes')'')"
| "js_includes JNull p =
     Inl (TypeError ''Cannot read properties of null (reading 'includes')'')"
| "js_includes v p = Inl (TypeError ''errorMessage.includes is not a function'')"

subsection \<open>\<open>JSON.stringify\<close>\<close>

definition hex_char :: "nat \<Rightarrow> char" where
  "hex_char d = ''0123456789abcdef'' ! d"

definition json_escape :: "char \<Rightarrow> string" where
  "json_escape c =
     (let n = (of_char c :: nat) in
      if n = 0x22 then [CHR 0x5C, CHR 0x22]
      else if n = 0x5C then [CHR 0x5C, CHR 0x5C]
      else if n = 0x08 then [CHR 0x5C, CHR ''b'']
      else if n = 0x0C then [CHR 0x5C, CHR ''f'']
      else if n = 0x0A then [CHR 0x5C, CHR ''n'']
      else if n = 0x0D then [CHR 0x5C, CHR ''r'']
      else if n = 0x09 then [CHR 0x5C, CHR ''t'']
      else if n < 0x20 then [CHR 0x5C, CHR ''u'', CHR ''0'', CHR ''0'', hex_char (n div 16), hex_char (n mod 16)]
      else [c])"

definition json_quote :: "string \<Rightarrow> string" where
  "json_quote s = [CHR 0x22] @ concat (map json_escape s) @ [CHR 0x22]"

text \<open>\<open>None\<close> is the result \<open>undefined\<close>; every other result is a string.\<close>

fun JSON_stringify :: "jsval \<Rightarrow> string option" where
  "JSON_stringify JUndefined = None"
| "JSON_stringify (JFun f) = None"
| "JSON_stringify JNull = Some ''null''"
| "JSON_stringify (JBool b) = Some (if b then ''true'' else ''false'')"
| "JSON_stringify (JNum n) = Some (number_toString n)"
| "JSON_stringify JNaN = Some ''null''"
| "JSON_stringify (JStr s) = Some (json_quote s)"
| "JSON_stringify (JArr xs) =
     Some (''['' @ js_join '',''
        (map (\<lambda>x. case JSON_stringify x of None \<Rightarrow> ''null'' | Some s \<Rightarrow> s) xs) @ '']'')"
| "JSON_stringify (JObj kvs) =
     Some (''{'' @ js_join '',''
        (concat (map (\<lambda>kv. case JSON_stringify (snd kv) of None \<Rightarrow> []
                            | Some s \<Rightarrow> [json_quote (fst kv) @ '':'' @ s]) kvs)) @ ''}'')"

definition stringify_value :: "jsval \<Rightarrow> jsval" where
  "stringify_value v = (case JSON_stringify v of None \<Rightarrow> JUndefined | Some s \<Rightarrow> JStr s)"

section \<open>The environment of a client\<close>

text \<open>
  The library reads the clock and talks to the network. A run of the environment is given
  by what it answers: the value of the \<open>k\<close>-th clock read (\<open>Date.now()\<close> in
  milliseconds, \<open>new Date()\<close> as local calendar fields) and the outcome of the
  \<open>k\<close>-th network call. The world records how many clock reads and which calls have
  happened so far, oldest call first.
\<close>

record local_date =
  getFullYear :: int
  getMonth :: int
  getDate :: int
  getHours :: int
  getMinutes :: int
  getSeconds :: int

datatype http_call =
    HttpGet string "(string \<times> string) list"
  | HttpPost string jsval "(string \<times> string) list"

text \<open>
  An \<open>axios\<close> promise either resolves with a response object or rejects with an error
  value.
\<close>

datatype http_result = Resolved jsval | Rejected jsval

record env =
  Date_now :: "nat \<Rightarrow> int"
  new_Date :: "nat \<Rightarrow> local_date"
  axios_reply :: "nat \<Rightarrow> http_result"

record world =
  ticks :: nat
  trace :: "http_call list"

fun is_token_call :: "http_call \<Rightarrow> bool" where
  "is_token_call (HttpGet url hs) = True"
| "is_token_call (HttpPost url body hs) = False"

fun is_target_call :: "http_call \<Rightarrow> bool" where
  "is_target_call (HttpGet url hs) = False"
| "is_target_call (HttpPost url body hs) = True"

definition token_calls :: "http_call list \<Rightarrow> nat" where
  "token_calls cs = length (filter is_token_call cs)"

definition target_calls :: "http_call list \<Rightarrow> nat" where
  "target_calls cs = length (filter is_target_call cs)"

text \<open>Sequencing of steps that may throw.\<close>

definition andThen :: "js_error + 'a \<Rightarrow> ('a \<Rightarrow> js_error + 'b) \<Rightarrow> js_error + 'b" where
  "andThen r k = (case r of Inl e \<Rightarrow> Inl e | Inr v \<Rightarrow> k v)"

section \<open>\<open>Buffer.from(s).toString("base64")\<close>\<close>

text \<open>
  \<open>Buffer.from\<close> encodes a string as UTF-8. Characters here are the code points
  \<open>0..255\<close>: one byte below 128, two bytes from 128 on.
\<close>

definition Buffer_from :: "string \<Rightarrow> nat list" where
  "Buffer_from s =
     concat (map (\<lambda>c. let n = (of_char c :: nat)
                       in if n < 128 then [n] else [192 + n div 64, 128 + n mod 64]) s)"

definition base64_char :: "nat \<Rightarrow> char" where
  "base64_char i = ''ABCDEFGHIJKLMNOPQRSTUVWXYZabcdefghijklmnopqrstuvwxyz0123456789+/'' ! i"

fun toString_base64 :: "nat list \<Rightarrow> string" where
  "toString_base64 [] = []"
| "toString_base64 [a] =
     [base64_char (a div 4), base64_char ((a mod 4) * 16), CHR ''='', CHR ''='']"
| "toString_base64 [a, b] =
     [base64_char (a div 4), base64_char ((a mod 4) * 16 + b div 16),
      base64_char ((b mod 16) * 4), CHR ''='']"
| "toString_base64 (a # b # c # rest) =
     [base64_char (a div 4), base64_char ((a mod 4) * 16 + b div 16),
      base64_char ((b mod 16) * 4 + c div 64), base64_char (c mod 64)]
     @ toString_base64 rest"

definition base64 :: "string \<Rightarrow> string" where
  "base64 s = toString_base64 (Buffer_from s)"

section \<open>The class \<open>Safaricom\<close>\<close>

record safaricom =
  consumerKey :: jsval
  consumerSecret :: jsval
  shortCode :: jsval
  passkey :: jsval
  initiatorName :: jsval
  securityCredential :: jsval
  environment :: jsval
  baseUrl :: jsval
  token :: jsval
  tokenExpiresAt :: jsval

subsection \<open>Construction\<close>

definition BASE_URLS :: "(string \<times> jsval) list" where
  "BASE_URLS =
     [(''sandbox'', JStr ''https://sandbox.safaricom.co.ke''),
      (''production'', JStr ''https://api.safaricom.co.ke'')]"

text \<open>
  \<open>BASE_URLS\<close> is an object literal, so a lookup that finds no own property goes on to
  \<open>Object.prototype\<close>: its eleven methods, and \<open>__proto__\<close>, which answers the
  prototype itself.
\<close>

definition Object_prototype_methods :: "(string \<times> jsval) list" where
  "Object_prototype_methods =
     [(''constructor'', JFun ''Object''),
      (''__defineGetter__'', JFun ''__defineGetter__''),
      (''__defineSetter__'', JFun ''__defineSetter__''),
      (''hasOwnProperty'', JFun ''hasOwnProperty''),
      (''__lookupGetter__'', JFun ''__lookupGetter__''),
      (''__lookupSetter__'', JFun ''__lookupSetter__''),
      (''isPrototypeOf'', JFun ''isPrototypeOf''),
      (''propertyIsEnumerable'', JFun ''propertyIsEnumerable''),
      (''toString'', JFun ''toString''),
      (''valueOf'', JFun ''valueOf''),
      (''toLocaleString'', JFun ''toLocaleString'')]"

definition Object_prototype :: "(string \<times> jsval) list" where
  "Object_prototype =
     Object_prototype_methods @ [(''__proto__'', JObj Object_prototype_methods)]"

text \<open>\<open>BASE_URLS[key]\<close>: the key is converted to a string first.\<close>

definition BASE_URLS_get :: "jsval \<Rightarrow> jsval" where
  "BASE_URLS_get key =
     (case map_of BASE_URLS (toString key) of
        Some v \<Rightarrow> v
      | None \<Rightarrow>
          (case map_of Object_prototype (toString key) of
             Some v \<Rightarrow> v
           | None \<Rightarrow> JUndefined))"

text \<open>
  \<open>new Safaricom(options)\<close>. An absent option reads as \<open>undefined\<close>. The cache
  starts empty: \<open>token\<close> and \<open>tokenExpiresAt\<close> are \<open>null\<close>.
\<close>

definition constructor :: "jsval \<Rightarrow> js_error + safaricom" where
  "constructor options =
     andThen (getProp options ''consumerKey'') (\<lambda>ck.
     andThen (getProp options ''consumerSecret'') (\<lambda>cs.
     andThen (getProp options ''shortCode'') (\<lambda>sc.
     if \<not> truthy ck \<or> \<not> truthy cs \<or> \<not> truthy sc
     then Inl (Error ''Consumer key, consumer secret, and shortcode are required.'')
     else
     andThen (getProp options ''passkey'') (\<lambda>pk.
     andThen (getProp options ''initiatorName'') (\<lambda>ini.
     andThen (getProp options ''securityCredential'') (\<lambda>cred.
     andThen (getProp options ''environment'') (\<lambda>env_opt.
       let env_name = js_or env_opt (JStr ''sandbox'');
           url = BASE_URLS_get env_name
       in if \<not> truthy url
          then Inl (Error (''Invalid environment specified: '' @ toString env_name
                           @ ''. Use 'sandbox' or 'production'.''))
          else Inr \<lparr> consumerKey = ck, consumerSecret = cs, shortCode = sc, passkey = pk,
                     initiatorName = ini, securityCredential = cred, environment = env_name,
                     baseUrl = url, token = JNull, tokenExpiresAt = JNull \<rparr>)))))))"

subsection \<open>\<open>_getTimestamp\<close>\<close>

text \<open>
  \<open>s.padStart(n, pad)\<close>: a string already \<open>n\<close> long, or an empty pad, leaves
  \<open>s\<close> as it is; otherwise the pad is repeated in front, cut to fit.
\<close>

definition padStart :: "nat \<Rightarrow> string \<Rightarrow> string \<Rightarrow> string" where
  "padStart n pad s =
     (if n \<le> length s \<or> pad = [] then s
      else take (n - length s) (concat (replicate (n - length s) pad)) @ s)"

definition getTimestamp :: "local_date \<Rightarrow> string" where
  "getTimestamp date =
     (let year = JNum (getFullYear date);
          month = padStart 2 ''0'' (toString (JNum (getMonth date + 1)));
          day = padStart 2 ''0'' (toString (JNum (getDate date)));
          hours = padStart 2 ''0'' (toString (JNum (getHours date)));
          minutes = padStart 2 ''0'' (toString (JNum (getMinutes date)));
          seconds = padStart 2 ''0'' (toString (JNum (getSeconds date)))
      in toString year @ month @ day @ hours @ minutes @ seconds)"

subsection \<open>\<open>_handleError\<close>\<close>

text \<open>The messages of the \<open>switch\<close>, in the order of the source.\<close>

definition msg_400_008_01 :: "jsval \<Rightarrow> string" where
  "msg_400_008_01 errorMessage =
     ''Authentication Failed. Please check if your Consumer Key and Consumer Secret are correct. The Daraja API returned: ''
     @ toString errorMessage"

definition msg_400_008_02 :: "jsval \<Rightarrow> string" where
  "msg_400_008_02 errorMessage =
     ''Invalid Grant Type. The library sent 'client_credentials' as required, but the API rejected it. This may be a temporary issue with the API. The Daraja API returned: ''
     @ toString errorMessage"

definition msg_404_001_04 :: "jsval \<Rightarrow> string" where
  "msg_404_001_04 errorMessage =
     ''Invalid Authentication Header. This can happen if the access token is missing or incorrect. The Daraja API returned: ''
     @ toString errorMessage"

definition msg_400_002_05 :: "jsval \<Rightarrow> string" where
  "msg_400_002_05 errorMessage =
     ''Invalid Request Payload. Please check that all required parameters for this API call are correct and have the right format. The Daraja API returned: ''
     @ toString errorMessage"

definition msg_400_003_01 :: "jsval \<Rightarrow> string" where
  "msg_400_003_01 errorMessage =
     ''Invalid Access Token. Your token has likely expired. The library will automatically try to get a new one on the next request. The Daraja API returned: ''
     @ toString errorMessage"

definition msg_1 :: "string" where
  "msg_1 =
     ''Insufficient Funds. The customer's M-Pesa account has insufficient funds to complete the transaction. Please advise the customer to top up or use Fuliza.''"

definition msg_1001 :: "string" where
  "msg_1001 =
     ''Transaction in Progress. The customer has another M-Pesa transaction in progress. Please advise them to complete or cancel the other transaction before retrying.''"

definition msg_1019 :: "string" where
  "msg_1019 =
     ''Transaction Expired. The request took too long to process and has expired. Please try initiating the transaction again.''"

definition msg_1025 :: "string" where
  "msg_1025 =
     ''An internal error occurred while sending the push request. This might be a temporary issue with the M-Pesa service. Please try again shortly.''"

definition msg_1032 :: "string" where
  "msg_1032 =
     ''Request Cancelled by User. The customer cancelled the M-Pesa PIN entry prompt on their phone.''"

definition msg_1037 :: "string" where
  "msg_1037 =
     ''STK Push Timeout. The request timed out because the customer's phone was unreachable or they did not respond in time. Please ensure the customer's phone is online and advise them to try again.''"

definition msg_2001 :: "string" where
  "msg_2001 =
     ''Invalid PIN. The customer entered the wrong M-Pesa PIN. Please ask them to try again with the correct PIN.''"

definition msg_15 :: "string" where
  "msg_15 =
     ''Duplicate Request. A request with the same unique identifier has already been processed. Please ensure each request has a unique OriginatorConversationID.''"

definition msg_17 :: "string" where
  "msg_17 =
     ''Internal Failure. An unspecified error occurred within the M-Pesa system. Please try again later.''"

definition msg_18 :: "string" where
  "msg_18 =
     ''Initiator Credential Check Failure. The Security Credential provided is incorrect. Please verify and encrypt your initiator password again.''"

definition msg_20 :: "string" where
  "msg_20 =
     ''Unresolved Initiator. The InitiatorName you provided could not be found. Please check your credentials.''"

definition msg_21 :: "string" where
  "msg_21 =
     ''Permission Failure. The initiator does not have permission to perform this action on the specified shortcode.''"

definition msg_26 :: "string" where
  "msg_26 =
     ''System Busy. The M-Pesa system is currently experiencing high traffic. Please try your request again in a few moments.''"

definition msg_2001_second :: "string" where
  "msg_2001_second =
     ''Invalid Initiator Information. The 'initiatorName' or 'securityCredential' you provided is incorrect. Please check your credentials on the Safaricom Developer Portal.''"

definition msg_2001_third :: "string" where
  "msg_2001_third =
     ''Invalid Initiator Information. The 'initiatorName' or 'securityCredential' you provided is incorrect. Please check your credentials on the Safaricom Developer Portal.''"

definition msg_4102 :: "string" where
  "msg_4102 =
     ''Merchant KYC Fail. There is an issue with the merchant's account details (KYC). Please ensure the merchant's account is fully compliant.''"

definition msg_4104 :: "string" where
  "msg_4104 =
     ''Missing Nominated Number. The merchant's Till Number is not properly configured with a nominated phone number on the M-Pesa portal.''"

definition msg_4201_4203 :: "string" where
  "msg_4201_4203 =
     ''USSD Network Error. There was a problem with the USSD network when trying to send the prompt to the merchant. This is often temporary. Please try again.''"

definition msg_already_registered :: "string" where
  "msg_already_registered =
     ''URLs are already registered for this ShortCode. In the production environment, you can only register URLs once. To change them, please contact Safaricom API support.''"

definition msg_duplicate_notification :: "string" where
  "msg_duplicate_notification =
     ''Duplicate URLs. You may have registered these URLs on another platform (like the old aggregator platform). Please contact Safaricom support to have the old URLs deleted before registering here.''"

definition msg_500_003_1001_other :: "jsval \<Rightarrow> string" where
  "msg_500_003_1001_other errorMessage =
     ''An internal server error occurred at the API. Please try again later. Details: ''
     @ toString errorMessage"

definition msg_biller_registered :: "string" where
  "msg_biller_registered =
     ''This shortcode is already opted into Bill Manager. You do not need to opt-in again.''"

definition msg_invalid_consumerkey :: "string" where
  "msg_invalid_consumerkey =
     ''Invalid credentials. Please ensure the 'consumerKey' and 'shortCode' you are using are correct and linked.''"

definition msg_another_entry :: "string" where
  "msg_another_entry =
     ''Duplicate Invoice. An invoice with this 'externalReference' number already exists. Please use a unique reference for each invoice.''"

definition msg_phone_format :: "string" where
  "msg_phone_format =
     ''Invalid Phone Number. Please ensure the 'billedPhoneNumber' is a valid Safaricom number in the format 07XXXXXXXX.''"

definition msg_due_date_format :: "string" where
  "msg_due_date_format =
     ''Invalid Date Format. Please ensure the 'dueDate' is in the format YYYY-MM-DD.''"

definition msg_cannot_be_cancelled :: "string" where
  "msg_cannot_be_cancelled =
     ''Invoice Cannot Be Cancelled. The invoice has likely been partially or fully paid. Only unpaid invoices can be cancelled.''"

definition msg_409_other :: "jsval \<Rightarrow> string" where
  "msg_409_other errorMessage =
     ''A conflict error occurred. The API returned: ''
     @ toString errorMessage"

definition msg_default :: "jsval \<Rightarrow> jsval \<Rightarrow> string" where
  "msg_default status errorMessage =
     ''The API request failed with status code ''
     @ toString status
     @ ''. The API returned the following message: ''
     @ toString errorMessage"

definition msg_no_response :: string where
  "msg_no_response =
     ''The request failed because no response was received from the Safaricom server. This could be due to a network issue or the Daraja API being temporarily unavailable. Please check your internet connection and try again.''"

definition msg_setup :: "jsval \<Rightarrow> string" where
  "msg_setup message =
     ''An unexpected error occurred while setting up the API request: '' @ toString message"

text \<open>
  \<open>data.errorCode || (data.fault ? data.fault.code : null) || data.ResultCode\<close>.
  Only the first read can throw: after it \<open>data\<close> is known not to be
  \<open>undefined\<close> or \<open>null\<close>, and \<open>data.fault\<close> is read further only when truthy.
\<close>

definition extractErrorCode :: "jsval \<Rightarrow> js_error + jsval" where
  "extractErrorCode data =
     andThen (getProp data ''errorCode'') (\<lambda>errorCode.
     if truthy errorCode then Inr errorCode
     else
     andThen (getProp data ''fault'') (\<lambda>fault.
     andThen (if truthy fault then getProp fault ''code'' else Inr JNull) (\<lambda>faultCode.
     if truthy faultCode then Inr faultCode
     else getProp data ''ResultCode'')))"

text \<open>
  \<open>data.errorMessage || (data.fault ? data.fault.faultstring : null) || data.ResultDesc ||
  JSON.stringify(data)\<close>.
\<close>

definition extractErrorMessage :: "jsval \<Rightarrow> js_error + jsval" where
  "extractErrorMessage data =
     andThen (getProp data ''errorMessage'') (\<lambda>errorMessage.
     if truthy errorMessage then Inr errorMessage
     else
     andThen (getProp data ''fault'') (\<lambda>fault.
     andThen (if truthy fault then getProp fault ''faultstring'' else Inr JNull) (\<lambda>faultstring.
     if truthy faultstring then Inr faultstring
     else
     andThen (getProp data ''ResultDesc'') (\<lambda>resultDesc.
     if truthy resultDesc then Inr resultDesc
     else Inr (stringify_value data)))))"

text \<open>The two cases that look into the message, as their \<open>if\<close>/\<open>else if\<close> chains.\<close>

definition case_500_003_1001 :: "jsval \<Rightarrow> js_error + string" where
  "case_500_003_1001 errorMessage =
     andThen (js_includes errorMessage ''already registered'') (\<lambda>b1.
     if b1 then Inr msg_already_registered
     else
     andThen (js_includes errorMessage ''Duplicate notification info'') (\<lambda>b2.
     if b2 then Inr msg_duplicate_notification
     else Inr (msg_500_003_1001_other errorMessage)))"

definition case_409 :: "jsval \<Rightarrow> js_error + string" where
  "case_409 errorMessage =
     andThen (js_includes errorMessage ''Biller already Registered'') (\<lambda>b1.
     if b1 then Inr msg_biller_registered
     else
     andThen (js_includes errorMessage ''Invalid consumerkey/shortcode'') (\<lambda>b2.
     if b2 then Inr msg_invalid_consumerkey
     else
     andThen (js_includes errorMessage ''Another entry exist'') (\<lambda>b3.
     if b3 then Inr msg_another_entry
     else
     andThen (js_includes errorMessage ''Incorrect phone number format'') (\<lambda>b4.
     if b4 then Inr msg_phone_format
     else
     andThen (js_includes errorMessage ''Incorrect due date format'') (\<lambda>b5.
     if b5 then Inr msg_due_date_format
     else
     andThen (js_includes errorMessage ''cannot be cancelled'') (\<lambda>b6.
     if b6 then Inr msg_cannot_be_cancelled
     else Inr (msg_409_other errorMessage)))))))"

text \<open>
  The \<open>switch\<close> on \<open>String(errorCode)\<close>: the case clauses in source order, each with
  the body that runs up to its \<open>break\<close> (given the status and the extracted message).
  The label \<open>2001\<close> occurs three times in the source and is listed three times here;
  \<open>4201\<close> falls through to the body of \<open>4203\<close>. The first clause whose label equals
  the code runs; with none, the \<open>default\<close> clause does.
\<close>

type_synonym case_body = "jsval \<Rightarrow> jsval \<Rightarrow> js_error + string"

definition switch_cases :: "(string \<times> case_body) list" where
  "switch_cases =
     [(''400.008.01'', \<lambda>status errorMessage. Inr (msg_400_008_01 errorMessage)),
      (''400.008.02'', \<lambda>status errorMessage. Inr (msg_400_008_02 errorMessage)),
      (''404.001.04'', \<lambda>status errorMessage. Inr (msg_404_001_04 errorMessage)),
      (''400.002.05'', \<lambda>status errorMessage. Inr (msg_400_002_05 errorMessage)),
      (''400.003.01'', \<lambda>status errorMessage. Inr (msg_400_003_01 errorMessage)),
      (''1'', \<lambda>status errorMessage. Inr msg_1),
      (''1001'', \<lambda>status errorMessage. Inr msg_1001),
      (''1019'', \<lambda>status errorMessage. Inr msg_1019),
      (''1025'', \<lambda>status errorMessage. Inr msg_1025),
      (''1032'', \<lambda>status errorMessage. Inr msg_1032),
      (''1037'', \<lambda>status errorMessage. Inr msg_1037),
      (''2001'', \<lambda>status errorMessage. Inr msg_2001),
      (''15'', \<lambda>status errorMessage. Inr msg_15),
      (''17'', \<lambda>status errorMessage. Inr msg_17),
      (''18'', \<lambda>status errorMessage. Inr msg_18),
      (''20'', \<lambda>status errorMessage. Inr msg_20),
      (''21'', \<lambda>status errorMessage. Inr msg_21),
      (''26'', \<lambda>status errorMessage. Inr msg_26),
      (''2001'', \<lambda>status errorMessage. Inr msg_2001_second),
      (''2001'', \<lambda>status errorMessage. Inr msg_2001_third),
      (''4102'', \<lambda>status errorMessage. Inr msg_4102),
      (''4104'', \<lambda>status errorMessage. Inr msg_4104),
      (''4201'', \<lambda>status errorMessage. Inr msg_4201_4203),
      (''4203'', \<lambda>status errorMessage. Inr msg_4201_4203),
      (''500.003.1001'', \<lambda>status errorMessage. case_500_003_1001 errorMessage),
      (''409'', \<lambda>status errorMessage. case_409 errorMessage)]"

definition default_case :: case_body where
  "default_case status errorMessage = Inr (msg_default status errorMessage)"

definition switch_on :: "string \<Rightarrow> case_body" where
  "switch_on code =
     (case map_of switch_cases code of Some body \<Rightarrow> body | None \<Rightarrow> default_case)"

text \<open>
  \<open>_handleError(error)\<close>. \<open>Inr\<close> is the \<open>Error\<close> it returns, \<open>Inl\<close> an exception
  thrown while it runs.
\<close>

definition handleError :: "jsval \<Rightarrow> js_error + js_error" where
  "handleError error =
     andThen (getProp error ''response'') (\<lambda>response.
     if truthy response then
       andThen (getProp response ''status'') (\<lambda>status.
       andThen (getProp response ''data'') (\<lambda>data.
       andThen (extractErrorCode data) (\<lambda>errorCode.
       andThen (extractErrorMessage data) (\<lambda>errorMessage.
       andThen (switch_on (toString errorCode) status errorMessage) (\<lambda>userMessage.
       Inr (Error userMessage))))))
     else
       andThen (getProp error ''request'') (\<lambda>request.
       if truthy request then Inr (Error msg_no_response)
       else
         andThen (getProp error ''message'') (\<lambda>message.
         Inr (Error (msg_setup message)))))"

text \<open>
  \<open>throw this._handleError(error)\<close>: the caller is rejected with the error returned, or
  with the exception the normalizer itself threw.
\<close>

definition throw_handleError :: "jsval \<Rightarrow> js_error" where
  "throw_handleError error = (case handleError error of Inl e \<Rightarrow> e | Inr e \<Rightarrow> e)"

subsection \<open>\<open>_getAuthToken\<close>\<close>

text \<open>
  \<open>const { access_token, expires_in } = response.data\<close>: destructuring
  \<open>undefined\<close> or \<open>null\<close> throws.
\<close>

definition destructure_token :: "jsval \<Rightarrow> js_error + jsval \<times> jsval" where
  "destructure_token data =
     (if data = JUndefined \<or> data = JNull
      then Inl (TypeError (''Cannot destructure property 'access_token' of 'response.data' as it is ''
                           @ toString data @ ''.''))
      else andThen (getProp data ''access_token'') (\<lambda>access_token.
           andThen (getProp data ''expires_in'') (\<lambda>expires_in.
           Inr (access_token, expires_in))))"

definition token_request :: "safaricom \<Rightarrow> http_call" where
  "token_request c =
     (let auth = base64 (toString (consumerKey c) @ '':'' @ toString (consumerSecret c))
      in HttpGet (toString (baseUrl c) @ ''/oauth/v1/generate?grant_type=client_credentials'')
           [(''Authorization'', ''Basic '' @ auth)])"

text \<open>
  The guard \<open>this.token && this.tokenExpiresAt && this.tokenExpiresAt > Date.now()\<close>.
  \<open>&&\<close> stops at the first falsy operand, so the clock is read only when both cache
  fields are truthy.
\<close>

definition cache_hit :: "env \<Rightarrow> safaricom \<Rightarrow> world \<Rightarrow> bool" where
  "cache_hit e c w =
     (truthy (token c) \<and> truthy (tokenExpiresAt c)
      \<and> js_gt (tokenExpiresAt c) (JNum (Date_now e (ticks w))))"

definition after_guard :: "safaricom \<Rightarrow> world \<Rightarrow> world" where
  "after_guard c w =
     (if truthy (token c) \<and> truthy (tokenExpiresAt c) then w\<lparr>ticks := ticks w + 1\<rparr> else w)"

text \<open>
  The result is the settled promise, the client after the call and the world after the call.
  Whatever is thrown while the response is awaited or taken apart is caught and handed to
  \<open>_handleError\<close>; the two assignments to the cache come after that, and the clock is
  read once more for the second of them.
\<close>

definition getAuthToken ::
  "env \<Rightarrow> safaricom \<Rightarrow> world \<Rightarrow> (js_error + jsval) \<times> safaricom \<times> world" where
  "getAuthToken e c w =
     (let w1 = after_guard c w
      in if cache_hit e c w then (Inr (token c), c, w1)
         else
           let w2 = w1\<lparr>trace := trace w1 @ [token_request c]\<rparr>
           in case axios_reply e (length (trace w1)) of
                Rejected error \<Rightarrow> (Inl (throw_handleError error), c, w2)
              | Resolved response \<Rightarrow>
                  (case andThen (getProp response ''data'') destructure_token of
                     Inl error \<Rightarrow> (Inl (throw_handleError (error_value error)), c, w2)
                   | Inr (access_token, expires_in) \<Rightarrow>
                       let c' = c\<lparr>token := access_token,
                                  tokenExpiresAt :=
                                    js_add (JNum (Date_now e (ticks w2)))
                                      (js_mul (js_sub expires_in (JNum 60)) (JNum 1000))\<rparr>
                       in (Inr (token c'), c', w2\<lparr>ticks := ticks w2 + 1\<rparr>)))"

subsection \<open>\<open>_makeRequest\<close>\<close>

definition target_request :: "safaricom \<Rightarrow> jsval \<Rightarrow> string \<Rightarrow> jsval \<Rightarrow> http_call" where
  "target_request c tok endpoint body =
     HttpPost (toString (baseUrl c) @ endpoint) body
       [(''Authorization'', ''Bearer '' @ toString tok),
        (''Content-Type'', ''application/json'')]"

definition makeRequest ::
  "env \<Rightarrow> safaricom \<Rightarrow> world \<Rightarrow> string \<Rightarrow> jsval \<Rightarrow> (js_error + jsval) \<times> safaricom \<times> world" where
  "makeRequest e c w endpoint body =
     (case getAuthToken e c w of
        (Inl error, c1, w1) \<Rightarrow> (Inl error, c1, w1)
      | (Inr tok, c1, w1) \<Rightarrow>
          let w2 = w1\<lparr>trace := trace w1 @ [target_request c1 tok endpoint body]\<rparr>
          in (case axios_reply e (length (trace w1)) of
                Rejected error \<Rightarrow> (Inl (throw_handleError error), c1, w2)
              | Resolved response \<Rightarrow>
                  (case getProp response ''data'' of
                     Inl error \<Rightarrow> (Inl (throw_handleError (error_value error)), c1, w2)
                   | Inr data \<Rightarrow> (Inr data, c1, w2))))"

subsection \<open>Operations guarded by a per-operation credential\<close>

text \<open>
  Each operation checks its credential first, then builds the request body from
  \<open>params\<close> (reading a field of \<open>undefined\<close> or \<open>null\<close> throws) and hands it
  to \<open>_makeRequest\<close>. The two passkey operations read the clock for the timestamp and
  derive the password before building the body. The remaining operations of the class take
  no credential beyond the token and are not modelled.
\<close>

definition stkPush_body :: "safaricom \<Rightarrow> string \<Rightarrow> string \<Rightarrow> jsval \<Rightarrow> js_error + jsval" where
  "stkPush_body c password timestamp params =
     andThen (getProp params ''TransactionType'') (\<lambda>v1.
     andThen (getProp params ''Amount'') (\<lambda>v2.
     andThen (getProp params ''PhoneNumber'') (\<lambda>v3.
     andThen (getProp params ''PhoneNumber'') (\<lambda>v4.
     andThen (getProp params ''CallBackURL'') (\<lambda>v5.
     andThen (getProp params ''AccountReference'') (\<lambda>v6.
     andThen (getProp params ''TransactionDesc'') (\<lambda>v7.
     Inr (JObj
       [(''BusinessShortCode'', shortCode c),
        (''Password'', JStr password),
        (''Timestamp'', JStr timestamp),
        (''TransactionType'', js_or v1 (JStr ''CustomerPayBillOnline'')),
        (''Amount'', v2),
        (''PartyA'', v3),
        (''PartyB'', shortCode c),
        (''PhoneNumber'', v4),
        (''CallBackURL'', v5),
        (''AccountReference'', v6),
        (''TransactionDesc'', v7)]))))))))"

definition stkPush ::
  "env \<Rightarrow> safaricom \<Rightarrow> world \<Rightarrow> jsval \<Rightarrow> (js_error + jsval) \<times> safaricom \<times> world" where
  "stkPush e c w params =
     (if \<not> truthy (passkey c)
      then (Inl (Error ''Passkey is required for STK Push.''), c, w)
      else
        let endpoint = ''/mpesa/stkpush/v1/processrequest'';
            timestamp = getTimestamp (new_Date e (ticks w));
            w1 = w\<lparr>ticks := ticks w + 1\<rparr>;
            password = base64 (toString (js_add (js_add (shortCode c) (passkey c)) (JStr timestamp)))
        in (case stkPush_body c password timestamp params of
              Inl error \<Rightarrow> (Inl error, c, w1)
            | Inr requestBody \<Rightarrow> makeRequest e c w1 endpoint requestBody))"

definition stkQuery_body :: "safaricom \<Rightarrow> string \<Rightarrow> string \<Rightarrow> jsval \<Rightarrow> js_error + jsval" where
  "stkQuery_body c password timestamp params =
     andThen (getProp params ''CheckoutRequestID'') (\<lambda>v1.
     Inr (JObj
       [(''BusinessShortCode'', shortCode c),
        (''Password'', JStr password),
        (''Timestamp'', JStr timestamp),
        (''CheckoutRequestID'', v1)]))"

definition stkQuery ::
  "env \<Rightarrow> safaricom \<Rightarrow> world \<Rightarrow> jsval \<Rightarrow> (js_error + jsval) \<times> safaricom \<times> world" where
  "stkQuery e c w params =
     (if \<not> truthy (passkey c)
      then (Inl (Error ''Passkey is required for STK Query.''), c, w)
      else
        let endpoint = ''/mpesa/stkpushquery/v1/query'';
            timestamp = getTimestamp (new_Date e (ticks w));
            w1 = w\<lparr>ticks := ticks w + 1\<rparr>;
            password = base64 (toString (js_add (js_add (shortCode c) (passkey c)) (JStr timestamp)))
        in (case stkQuery_body c password timestamp params of
              Inl error \<Rightarrow> (Inl error, c, w1)
            | Inr requestBody \<Rightarrow> makeRequest e c w1 endpoint requestBody))"

definition b2c_body :: "safaricom \<Rightarrow> jsval \<Rightarrow> js_error + jsval" where
  "b2c_body c params =
     andThen (getProp params ''CommandID'') (\<lambda>v1.
     andThen (getProp params ''Amount'') (\<lambda>v2.
     andThen (getProp params ''PartyB'') (\<lambda>v3.
     andThen (getProp params ''Remarks'') (\<lambda>v4.
     andThen (getProp params ''QueueTimeOutURL'') (\<lambda>v5.
     andThen (getProp params ''ResultURL'') (\<lambda>v6.
     andThen (getProp params ''Occasion'') (\<lambda>v7.
     Inr (JObj
       [(''InitiatorName'', initiatorName c),
        (''SecurityCredential'', securityCredential c),
        (''CommandID'', js_or v1 (JStr ''BusinessPayment'')),
        (''Amount'', v2),
        (''PartyA'', shortCode c),
        (''PartyB'', v3),
        (''Remarks'', v4),
        (''QueueTimeOutURL'', v5),
        (''ResultURL'', v6),
        (''Occasion'', v7)]))))))))"

definition b2c ::
  "env \<Rightarrow> safaricom \<Rightarrow> world \<Rightarrow> jsval \<Rightarrow> (js_error + jsval) \<times> safaricom \<times> world" where
  "b2c e c w params =
     (if \<not> truthy (initiatorName c) \<or> \<not> truthy (securityCredential c)
      then (Inl (Error ''InitiatorName and SecurityCredential are required for B2C transactions.''), c, w)
      else
        let endpoint = ''/mpesa/b2c/v1/paymentrequest''
        in (case b2c_body c params of
              Inl error \<Rightarrow> (Inl error, c, w)
            | Inr requestBody \<Rightarrow> makeRequest e c w endpoint requestBody))"

definition transactionStatus_body :: "safaricom \<Rightarrow> jsval \<Rightarrow> js_error + jsval" where
  "transactionStatus_body c params =
     andThen (getProp params ''TransactionID'') (\<lambda>v1.
     andThen (getProp params ''IdentifierType'') (\<lambda>v2.
     andThen (getProp params ''ResultURL'') (\<lambda>v3.
     andThen (getProp params ''QueueTimeOutURL'') (\<lambda>v4.
     andThen (getProp params ''Remarks'') (\<lambda>v5.
     andThen (getProp params ''Occasion'') (\<lambda>v6.
     Inr (JObj
       [(''Initiator'', initiatorName c),
        (''SecurityCredential'', securityCredential c),
        (''CommandID'', JStr ''TransactionStatusQuery''),
        (''TransactionID'', v1),
        (''PartyA'', shortCode c),
        (''IdentifierType'', js_or v2 (JStr ''4'')),
        (''ResultURL'', v3),
        (''QueueTimeOutURL'', v4),
        (''Remarks'', v5),
        (''Occasion'', v6)])))))))"

definition transactionStatus ::
  "env \<Rightarrow> safaricom \<Rightarrow> world \<Rightarrow> jsval \<Rightarrow> (js_error + jsval) \<times> safaricom \<times> world" where
  "transactionStatus e c w params =
     (if \<not> truthy (initiatorName c) \<or> \<not> truthy (securityCredential c)
      then (Inl (Error ''InitiatorName and SecurityCredential are required for Transaction Status Query.''), c, w)
      else
        let endpoint = ''/mpesa/transactionstatus/v1/query''
        in (case transactionStatus_body c params of
              Inl error \<Rightarrow> (Inl error, c, w)
            | Inr requestBody \<Rightarrow> makeRequest e c w endpoint requestBody))"

definition accountBalance_body :: "safaricom \<Rightarrow> jsval \<Rightarrow> js_error + jsval" where
  "accountBalance_body c params =
     andThen (getProp params ''IdentifierType'') (\<lambda>v1.
     andThen (getProp params ''Remarks'') (\<lambda>v2.
     andThen (getProp params ''QueueTimeOutURL'') (\<lambda>v3.
     andThen (getProp params ''ResultURL'') (\<lambda>v4.
     Inr (JObj
       [(''Initiator'', initiatorName c),
        (''SecurityCredential'', securityCredential c),
        (''CommandID'', JStr ''AccountBalance''),
        (''PartyA'', shortCode c),
        (''IdentifierType'', js_or v1 (JStr ''4'')),
        (''Remarks'', js_or v2 (JStr ''Balance Check'')),
        (''QueueTimeOutURL'', v3),
        (''ResultURL'', v4)])))))"

definition accountBalance ::
  "env \<Rightarrow> safaricom \<Rightarrow> world \<Rightarrow> jsval \<Rightarrow> (js_error + jsval) \<times> safaricom \<times> world" where
  "accountBalance e c w params =
     (if \<not> truthy (initiatorName c) \<or> \<not> truthy (securityCredential c)
      then (Inl (Error ''InitiatorName and SecurityCredential are required for Account Balance Query.''), c, w)
      else
        let endpoint = ''/mpesa/accountbalance/v1/query''
        in (case accountBalance_body c params of
              Inl error \<Rightarrow> (Inl error, c, w)
            | Inr requestBody \<Rightarrow> makeRequest e c w endpoint requestBody))"

definition reversal_body :: "safaricom \<Rightarrow> jsval \<Rightarrow> js_error + jsval" where
  "reversal_body c params =
     andThen (getProp params ''TransactionID'') (\<lambda>v1.
     andThen (getProp params ''Amount'') (\<lambda>v2.
     andThen (getProp params ''RecieverIdentifierType'') (\<lambda>v3.
     andThen (getProp params ''ResultURL'') (\<lambda>v4.
     andThen (getProp params ''QueueTimeOutURL'') (\<lambda>v5.
     andThen (getProp params ''Remarks'') (\<lambda>v6.
     andThen (getProp params ''Occasion'') (\<lambda>v7.
     Inr (JObj
       [(''Initiator'', initiatorName c),
        (''SecurityCredential'', securityCredential c),
        (''CommandID'', JStr ''TransactionReversal''),
        (''TransactionID'', v1),
        (''Amount'', v2),
        (''ReceiverParty'', shortCode c),
        (''RecieverIdentifierType'', js_or v3 (JStr ''11'')),
        (''ResultURL'', v4),
        (''QueueTimeOutURL'', v5),
        (''Remarks'', js_or v6 (JStr ''Reversal'')),
        (''Occasion'', v7)]))))))))"

definition reversal ::
  "env \<Rightarrow> safaricom \<Rightarrow> world \<Rightarrow> jsval \<Rightarrow> (js_error + jsval) \<times> safaricom \<times> world" where
  "reversal e c w params =
     (if \<not> truthy (initiatorName c) \<or> \<not> truthy (securityCredential c)
      then (Inl (Error ''InitiatorName and SecurityCredential are required for Reversals.''), c, w)
      else
        let endpoint = ''/mpesa/reversal/v1/request''
        in (case reversal_body c params of
              Inl error \<Rightarrow> (Inl error, c, w)
            | Inr requestBody \<Rightarrow> makeRequest e c w endpoint requestBody))"

definition taxRemittance_body :: "safaricom \<Rightarrow> jsval \<Rightarrow> js_error + jsval" where
  "taxRemittance_body c params =
     andThen (getProp params ''Amount'') (\<lambda>v1.
     andThen (getProp params ''AccountReference'') (\<lambda>v2.
     andThen (getProp params ''Remarks'') (\<lambda>v3.
     andThen (getProp params ''QueueTimeOutURL'') (\<lambda>v4.
     andThen (getProp params ''ResultURL'') (\<lambda>v5.
     Inr (JObj
       [(''Initiator'', initiatorName c),
        (''SecurityCredential'', securityCredential c),
        (''CommandID'', JStr ''PayTaxToKRA''),
        (''SenderIdentifierType'', JStr ''4''),
        (''RecieverIdentifierType'', JStr ''4''),
        (''Amount'', v1),
        (''PartyA'', shortCode c),
        (''PartyB'', JStr ''572572''),
        (''AccountReference'', v2),
        (''Remarks'', js_or v3 (JStr ''Tax Payment'')),
        (''QueueTimeOutURL'', v4),
        (''ResultURL'', v5)]))))))"

definition taxRemittance ::
  "env \<Rightarrow> safaricom \<Rightarrow> world \<Rightarrow> jsval \<Rightarrow> (js_error + jsval) \<times> safaricom \<times> world" where
  "taxRemittance e c w params =
     (if \<not> truthy (initiatorName c) \<or> \<not> truthy (securityCredential c)
      then (Inl (Error ''InitiatorName and SecurityCredential are required for Tax Remittance.''), c, w)
      else
        let endpoint = ''/mpesa/b2b/v1/remittax''
        in (case taxRemittance_body c params of
              Inl error \<Rightarrow> (Inl error, c, w)
            | Inr requestBody \<Rightarrow> makeRequest e c w endpoint requestBody))"

definition b2b_body :: "safaricom \<Rightarrow> jsval \<Rightarrow> js_error + jsval" where
  "b2b_body c params =
     andThen (getProp params ''CommandID'') (\<lambda>v1.
     andThen (getProp params ''Amount'') (\<lambda>v2.
     andThen (getProp params ''PartyB'') (\<lambda>v3.
     andThen (getProp params ''AccountReference'') (\<lambda>v4.
     andThen (getProp params ''Requester'') (\<lambda>v5.
     andThen (getProp params ''Remarks'') (\<lambda>v6.
     andThen (getProp params ''QueueTimeOutURL'') (\<lambda>v7.
     andThen (getProp params ''ResultURL'') (\<lambda>v8.
     Inr (JObj
       [(''Initiator'', initiatorName c),
        (''SecurityCredential'', securityCredential c),
        (''CommandID'', js_or v1 (JStr ''BusinessPayBill'')),
        (''SenderIdentifierType'', JStr ''4''),
        (''RecieverIdentifierType'', JStr ''4''),
        (''Amount'', v2),
        (''PartyA'', shortCode c),
        (''PartyB'', v3),
        (''AccountReference'', v4),
        (''Requester'', v5),
        (''Remarks'', js_or v6 (JStr ''Business Payment'')),
        (''QueueTimeOutURL'', v7),
        (''ResultURL'', v8)])))))))))"

definition b2b ::
  "env \<Rightarrow> safaricom \<Rightarrow> world \<Rightarrow> jsval \<Rightarrow> (js_error + jsval) \<times> safaricom \<times> world" where
  "b2b e c w params =
     (if \<not> truthy (initiatorName c) \<or> \<not> truthy (securityCredential c)
      then (Inl (Error ''InitiatorName and SecurityCredential are required for B2B transactions.''), c, w)
      else
        let endpoint = ''/mpesa/b2b/v1/paymentrequest''
        in (case b2b_body c params of
              Inl error \<Rightarrow> (Inl error, c, w)
            | Inr requestBody \<Rightarrow> makeRequest e c w endpoint requestBody))"

definition b2cAccountTopUp_body :: "safaricom \<Rightarrow> jsval \<Rightarrow> js_error + jsval" where
  "b2cAccountTopUp_body c params =
     andThen (getProp params ''Amount'') (\<lambda>v1.
     andThen (getProp params ''PartyB'') (\<lambda>v2.
     andThen (getProp params ''Remarks'') (\<lambda>v3.
     andThen (getProp params ''QueueTimeOutURL'') (\<lambda>v4.
     andThen (getProp params ''ResultURL'') (\<lambda>v5.
     Inr (JObj
       [(''Initiator'', initiatorName c),
        (''SecurityCredential'', securityCredential c),
        (''CommandID'', JStr ''BusinessPayToBulk''),
        (''SenderIdentifierType'', JStr ''4''),
        (''RecieverIdentifierType'', JStr ''4''),
        (''Amount'', v1),
        (''PartyA'', shortCode c),
        (''PartyB'', v2),
        (''AccountReference'', JStr ''B2C Top Up''),
        (''Remarks'', js_or v3 (JStr ''B2C Top Up'')),
        (''QueueTimeOutURL'', v4),
        (''ResultURL'', v5)]))))))"

definition b2cAccountTopUp ::
  "env \<Rightarrow> safaricom \<Rightarrow> world \<Rightarrow> jsval \<Rightarrow> (js_error + jsval) \<times> safaricom \<times> world" where
  "b2cAccountTopUp e c w params =
     (if \<not> truthy (initiatorName c) \<or> \<not> truthy (securityCredential c)
      then (Inl (Error ''InitiatorName and SecurityCredential are required for B2C Account Top Up.''), c, w)
      else
        let endpoint = ''/mpesa/b2b/v1/paymentrequest''
        in (case b2cAccountTopUp_body c params of
              Inl error \<Rightarrow> (Inl error, c, w)
            | Inr requestBody \<Rightarrow> makeRequest e c w endpoint requestBody))"

text \<open>Calling a method of the client by name.\<close>

datatype operation =
    StkPush | StkQuery | B2c | TransactionStatus | AccountBalance | Reversal
  | TaxRemittance | B2b | B2cAccountTopUp

fun invoke ::
  "operation \<Rightarrow> env \<Rightarrow> safaricom \<Rightarrow> world \<Rightarrow> jsval \<Rightarrow> (js_error + jsval) \<times> safaricom \<times> world" where
  "invoke StkPush = stkPush"
| "invoke StkQuery = stkQuery"
| "invoke B2c = b2c"
| "invoke TransactionStatus = transactionStatus"
| "invoke AccountBalance = accountBalance"
| "invoke Reversal = reversal"
| "invoke TaxRemittance = taxRemittance"
| "invoke B2b = b2b"
| "invoke B2cAccountTopUp = b2cAccountTopUp"

section \<open>Notions used to state the properties\<close>

subsection \<open>The token cache\<close>

text \<open>The settled promise, the client and the world of a finished call.\<close>

definition outcome :: "(js_error + jsval) \<times> safaricom \<times> world \<Rightarrow> js_error + jsval" where
  "outcome r = fst r"


definition world_after :: "(js_error + jsval) \<times> safaricom \<times> world \<Rightarrow> world" where
  "world_after r = snd (snd r)"


subsection \<open>Failures\<close>

text \<open>
  The failure carries a truthy \<open>response\<close> with the given status and body: the server
  answered.
\<close>

definition server_responded :: "jsval \<Rightarrow> jsval \<Rightarrow> jsval \<Rightarrow> bool" where
  "server_responded error status data =
     (case getProp error ''response'' of
        Inl x \<Rightarrow> False
      | Inr response \<Rightarrow>
          truthy response \<and> getProp response ''status'' = Inr status
          \<and> getProp response ''data'' = Inr data)"

text \<open>The failure carries no response but a truthy \<open>request\<close>: sent, never answered.\<close>

definition no_response_received :: "jsval \<Rightarrow> bool" where
  "no_response_received error =
     (case getProp error ''response'' of
        Inl x \<Rightarrow> False
      | Inr response \<Rightarrow>
          \<not> truthy response
          \<and> (case getProp error ''request'' of Inl x \<Rightarrow> False | Inr request \<Rightarrow> truthy request))"

text \<open>
  Probing in priority order: the first truthy candidate, and the last resort when none is.
\<close>

fun first_truthy :: "jsval list \<Rightarrow> jsval \<Rightarrow> jsval" where
  "first_truthy [] last_resort = last_resort"
| "first_truthy (v # vs) last_resort = (if truthy v then v else first_truthy vs last_resort)"

text \<open>A field of a value that is neither \<open>undefined\<close> nor \<open>null\<close>.\<close>

definition field :: "jsval \<Rightarrow> string \<Rightarrow> jsval" where
  "field v k = (case v of JObj kvs \<Rightarrow> (case map_of kvs k of Some x \<Rightarrow> x | None \<Rightarrow> JUndefined)
                | _ \<Rightarrow> JUndefined)"

text \<open>A field of the nested \<open>fault\<close> object, \<open>null\<close> when there is no such object.\<close>

definition fault_field :: "jsval \<Rightarrow> string \<Rightarrow> jsval" where
  "fault_field data k = (if truthy (field data ''fault'') then field (field data ''fault'') k else JNull)"


text \<open>Known phrases with the message each selects, in the order they are tested.\<close>

definition phrases_500_003_1001 :: "(string \<times> string) list" where
  "phrases_500_003_1001 =
     [(''already registered'', msg_already_registered),
      (''Duplicate notification info'', msg_duplicate_notification)]"

definition phrases_409 :: "(string \<times> string) list" where
  "phrases_409 =
     [(''Biller already Registered'', msg_biller_registered),
      (''Invalid consumerkey/shortcode'', msg_invalid_consumerkey),
      (''Another entry exist'', msg_another_entry),
      (''Incorrect phone number format'', msg_phone_format),
      (''Incorrect due date format'', msg_due_date_format),
      (''cannot be cancelled'', msg_cannot_be_cancelled)]"

text \<open>The first phrase, in list order, that occurs as a substring of the message wins.\<close>

fun first_match :: "string \<Rightarrow> (string \<times> string) list \<Rightarrow> string option" where
  "first_match m [] = None"
| "first_match m (pr # rest) = (if sublist (fst pr) m then Some (snd pr) else first_match m rest)"

text \<open>
  What the phrase tables decide for a message \<open>m\<close>: the message of the first matching
  phrase, or the per-code fallback built around \<open>m\<close>.
\<close>

definition decided_500_003_1001 :: "string \<Rightarrow> string" where
  "decided_500_003_1001 m =
     (case first_match m phrases_500_003_1001 of
        Some r \<Rightarrow> r
      | None \<Rightarrow>
          ''An internal server error occurred at the API. Please try again later. Details: '' @ m)"

definition decided_409 :: "string \<Rightarrow> string" where
  "decided_409 m =
     (case first_match m phrases_409 of
        Some r \<Rightarrow> r
      | None \<Rightarrow> ''A conflict error occurred. The API returned: '' @ m)"

subsection \<open>Credentials and operations\<close>

definition valid_credentials :: "jsval \<Rightarrow> bool" where
  "valid_credentials options =
     (truthy (field options ''consumerKey'') \<and> truthy (field options ''consumerSecret'')
      \<and> truthy (field options ''shortCode''))"

fun requires_passkey :: "operation \<Rightarrow> bool" where
  "requires_passkey StkPush = True"
| "requires_passkey StkQuery = True"
| "requires_passkey other = False"

fun requires_initiator :: "operation \<Rightarrow> bool" where
  "requires_initiator StkPush = False"
| "requires_initiator StkQuery = False"
| "requires_initiator other = True"

text \<open>
  The credential an operation requires is missing: the passkey is falsy, or the initiator
  name or the security credential is.
\<close>

definition missing_credential :: "operation \<Rightarrow> safaricom \<Rightarrow> bool" where
  "missing_credential operation c =
     ((requires_passkey operation \<and> \<not> truthy (passkey c))
      \<or> (requires_initiator operation
          \<and> (\<not> truthy (initiatorName c) \<or> \<not> truthy (securityCredential c))))"

fun configuration_error :: "operation \<Rightarrow> js_error" where
  "configuration_error StkPush = Error ''Passkey is required for STK Push.''"
| "configuration_error StkQuery = Error ''Passkey is required for STK Query.''"
| "configuration_error B2c =
     Error ''InitiatorName and SecurityCredential are required for B2C transactions.''"
| "configuration_error TransactionStatus =
     Error ''InitiatorName and SecurityCredential are required for Transaction Status Query.''"
| "configuration_error AccountBalance =
     Error ''InitiatorName and SecurityCredential are required for Account Balance Query.''"
| "configuration_error Reversal =
     Error ''InitiatorName and SecurityCredential are required for Reversals.''"
| "configuration_error TaxRemittance =
     Error ''InitiatorName and SecurityCredential are required for Tax Remittance.''"
| "configuration_error B2b =
     Error ''InitiatorName and SecurityCredential are required for B2B transactions.''"
| "configuration_error B2cAccountTopUp =
     Error ''InitiatorName and SecurityCredential are required for B2C Account Top Up.''"

text \<open>
  A field of the body of the most recent call, when that call is a \<open>POST\<close>: what the
  library last sent to a target endpoint.
\<close>

definition outgoing_field :: "world \<Rightarrow> string \<Rightarrow> jsval option" where
  "outgoing_field w k =
     (case rev (trace w) of
        HttpPost url body hs # earlier \<Rightarrow> Some (field body k)
      | _ \<Rightarrow> None)"

text \<open>The client that construction yields for the sandbox, the cache empty.\<close>

definition sandbox_client :: "jsval \<Rightarrow> safaricom" where
  "sandbox_client options =
     \<lparr> consumerKey = field options ''consumerKey'',
       consumerSecret = field options ''consumerSecret'',
       shortCode = field options ''shortCode'', passkey = field options ''passkey'',
       initiatorName = field options ''initiatorName'',
       securityCredential = field options ''securityCredential'',
       environment = JStr ''sandbox'', baseUrl = JStr ''https://sandbox.safaricom.co.ke'',
       token = JNull, tokenExpiresAt = JNull \<rparr>"

subsection \<open>The timestamp format\<close>

text \<open>The last \<open>k\<close> decimal digits of \<open>n\<close>, with leading zeros.\<close>

fun fixed_width :: "nat \<Rightarrow> nat \<Rightarrow> string" where
  "fixed_width 0 n = []"
| "fixed_width (Suc k) n = fixed_width k (n div 10) @ [digit_char (n mod 10)]"

definition YYYYMMDDHHMMSS :: "local_date \<Rightarrow> string" where
  "YYYYMMDDHHMMSS d =
     fixed_width 4 (nat (getFullYear d)) @ fixed_width 2 (nat (getMonth d + 1))
     @ fixed_width 2 (nat (getDate d)) @ fixed_width 2 (nat (getHours d))
     @ fixed_width 2 (nat (getMinutes d)) @ fixed_width 2 (nat (getSeconds d))"

text \<open>
  The fields of a local date as the \<open>Date\<close> getters return them (months count from
  zero), in a year written with four digits.
\<close>

definition calendar_date :: "local_date \<Rightarrow> bool" where
  "calendar_date d =
     (1000 \<le> getFullYear d \<and> getFullYear d \<le> 9999
      \<and> 0 \<le> getMonth d \<and> getMonth d \<le> 11
      \<and> 1 \<le> getDate d \<and> getDate d \<le> 31
      \<and> 0 \<le> getHours d \<and> getHours d \<le> 23
      \<and> 0 \<le> getMinutes d \<and> getMinutes d \<le> 59
      \<and> 0 \<le> getSeconds d \<and> getSeconds d \<le> 59)"

subsection \<open>Sample inputs\<close>

definition test_options :: jsval where
  "test_options =
     JObj [(''consumerKey'', JStr ''test_key''), (''consumerSecret'', JStr ''test_secret''),
           (''shortCode'', JStr ''600988''), (''passkey'', JStr ''test_passkey''),
           (''initiatorName'', JStr ''test_initiator''),
           (''securityCredential'', JStr ''test_credential''),
           (''environment'', JStr ''sandbox'')]"

definition test_client :: safaricom where
  "test_client =
     \<lparr> consumerKey = JStr ''test_key'', consumerSecret = JStr ''test_secret'',
       shortCode = JStr ''600988'', passkey = JStr ''test_passkey'',
       initiatorName = JStr ''test_initiator'', securityCredential = JStr ''test_credential'',
       environment = JStr ''sandbox'', baseUrl = JStr ''https://sandbox.safaricom.co.ke'',
       token = JNull, tokenExpiresAt = JNull \<rparr>"

definition new_year_2023 :: local_date where
  "new_year_2023 =
     \<lparr> getFullYear = 2023, getMonth = 0, getDate = 1, getHours = 0, getMinutes = 0,
       getSeconds = 0 \<rparr>"

definition fresh_world :: world where
  "fresh_world = \<lparr> ticks = 0, trace = [] \<rparr>"

text \<open>
  An environment whose clock stands at a fixed instant and whose network answers the first
  call with a token and every later call with a success payload.
\<close>

definition token_reply :: jsval where
  "token_reply =
     JObj [(''data'', JObj [(''access_token'', JStr ''api_token''), (''expires_in'', JNum 3599)])]"

definition success_reply :: jsval where
  "success_reply = JObj [(''data'', JObj [(''message'', JStr ''Success'')])]"

definition test_env :: env where
  "test_env =
     \<lparr> Date_now = (\<lambda>k. 1672531200000),
       new_Date = (\<lambda>k. new_year_2023),
       axios_reply = (\<lambda>k. if k = 0 then Resolved token_reply else Resolved success_reply) \<rparr>"

text \<open>An environment in which every call is sent and never answered.\<close>

definition silent_error :: jsval where
  "silent_error = JObj [(''request'', JObj []), (''message'', JStr ''timeout'')]"

definition silent_env :: env where
  "silent_env =
     \<lparr> Date_now = (\<lambda>k. 1672531200000),
       new_Date = (\<lambda>k. new_year_2023),
       axios_reply = (\<lambda>k. Rejected silent_error) \<rparr>"

text \<open>A server answer carrying the result code \<open>2001\<close> as a number.\<close>

definition failure_2001 :: jsval where
  "failure_2001 =
     JObj [(''response'', JObj [(''status'', JNum 500),
             (''data'', JObj [(''ResultCode'', JNum 2001),
                              (''ResultDesc'', JStr ''The initiator information is invalid.'')])])]"

text \<open>A network that hands out a token and then never answers again.\<close>

definition answered_once_env :: env where
  "answered_once_env =
     \<lparr> Date_now = (\<lambda>k. 1672531200000),
       new_Date = (\<lambda>k. new_year_2023),
       axios_reply = (\<lambda>k. if k = 0 then Resolved token_reply else Rejected silent_error) \<rparr>"


definition failure_409 :: jsval where
  "failure_409 =
     JObj [(''response'', JObj [(''status'', JNum 409),
             (''data'', JObj [(''errorCode'', JStr ''409''),
                (''errorMessage'',
                 JStr ''Biller already Registered; invoice cannot be cancelled'')])])]"

definition failure_500_003_1001 :: jsval where
  "failure_500_003_1001 =
     JObj [(''response'', JObj [(''status'', JNum 500),
             (''data'', JObj [(''errorCode'', JStr ''500.003.1001''),
                (''errorMessage'', JStr ''Service is down'')])])]"

text \<open>
  Server answers the normalizer cannot digest: the body \<open>null\<close>, and a listed code whose
  message is a number.
\<close>

definition null_body_failure :: jsval where
  "null_body_failure = JObj [(''response'', JObj [(''status'', JNum 500), (''data'', JNull)])]"

definition numeric_message_failure :: jsval where
  "numeric_message_failure =
     JObj [(''response'', JObj [(''status'', JNum 409),
             (''data'', JObj [(''errorCode'', JStr ''409''), (''errorMessage'', JNum 123)])])]"

text \<open>Options that differ in the environment they name.\<close>

definition empty_environment_options :: jsval where
  "empty_environment_options =
     JObj [(''consumerKey'', JStr ''test_key''), (''consumerSecret'', JStr ''test_secret''),
           (''shortCode'', JStr ''600988''), (''environment'', JStr '''')]"

definition omitted_environment_options :: jsval where
  "omitted_environment_options =
     JObj [(''consumerKey'', JStr ''test_key''), (''consumerSecret'', JStr ''test_secret''),
           (''shortCode'', JStr ''600988'')]"

definition invalid_environment_options :: jsval where
  "invalid_environment_options =
     JObj [(''consumerKey'', JStr ''test_key''), (''consumerSecret'', JStr ''test_secret''),
           (''shortCode'', JStr ''600988''), (''environment'', JStr ''invalid'')]"

definition inherited_environment_options :: jsval where
  "inherited_environment_options =
     JObj [(''consumerKey'', JStr ''test_key''), (''consumerSecret'', JStr ''test_secret''),
           (''shortCode'', JStr ''600988''), (''environment'', JStr ''constructor'')]"

text \<open>The parameters of a prompt-pay request.\<close>

definition stk_params :: jsval where
  "stk_params =
     JObj [(''Amount'', JNum 1), (''PhoneNumber'', JStr ''254712345678''),
           (''CallBackURL'', JStr ''https://test.com/callback''),
           (''AccountReference'', JStr ''Test-Ref''), (''TransactionDesc'', JStr ''Test Desc'')]"






section \<open>Properties\<close>

subsection \<open>Basic facts\<close>

lemma andThen_Inr [simp]: "andThen (Inr v) k = k v"
  by (simp add: andThen_def)

lemma andThen_Inl [simp]: "andThen (Inl x) k = Inl x"
  by (simp add: andThen_def)

lemma getProp_field:
  "v \<noteq> JUndefined \<Longrightarrow> v \<noteq> JNull \<Longrightarrow> getProp v k = Inr (field v k)"
  by (cases v) (simp_all add: field_def)

lemma truthy_defined: "truthy v \<Longrightarrow> v \<noteq> JUndefined \<and> v \<noteq> JNull"
  by (cases v) simp_all

lemma getProp_truthy: "truthy v \<Longrightarrow> getProp v k = Inr (field v k)"
  using getProp_field truthy_defined by blast

subsection \<open>The error normalizer\<close>

lemma extractErrorCode_probes:
  "extractErrorCode data =
     andThen (getProp data ''errorCode'') (\<lambda>x.
       Inr (first_truthy [field data ''errorCode'', fault_field data ''code'']
              (field data ''ResultCode'')))"
proof (cases "data = JUndefined \<or> data = JNull")
  case True
  then show ?thesis by (auto simp: extractErrorCode_def)
next
  case False
  then have g: "\<And>k. getProp data k = Inr (field data k)"
    by (simp add: getProp_field)
  show ?thesis
    by (simp add: extractErrorCode_def g fault_field_def getProp_truthy)
qed

lemma extractErrorMessage_probes:
  "extractErrorMessage data =
     andThen (getProp data ''errorMessage'') (\<lambda>x.
       Inr (first_truthy [field data ''errorMessage'', fault_field data ''faultstring'',
                          field data ''ResultDesc'']
              (stringify_value data)))"
proof (cases "data = JUndefined \<or> data = JNull")
  case True
  then show ?thesis by (auto simp: extractErrorMessage_def)
next
  case False
  then have g: "\<And>k. getProp data k = Inr (field data k)"
    by (simp add: getProp_field)
  show ?thesis
    by (simp add: extractErrorMessage_def g fault_field_def getProp_truthy)
qed

lemma extractErrorMessage_defined:
  "extractErrorCode data = Inr c \<Longrightarrow> \<exists>m. extractErrorMessage data = Inr m"
  by (cases "getProp data ''errorCode''"; cases "getProp data ''errorMessage''"; cases data)
     (simp_all add: extractErrorCode_probes extractErrorMessage_probes)

lemma handleError_responded:
  assumes "server_responded error status data"
  shows "handleError error =
     andThen (extractErrorCode data) (\<lambda>errorCode.
     andThen (extractErrorMessage data) (\<lambda>errorMessage.
     andThen (switch_on (toString errorCode) status errorMessage) (\<lambda>userMessage.
     Inr (Error userMessage))))"
  using assms
  by (auto simp: server_responded_def handleError_def split: sum.splits)

text \<open>
  The \<open>switch\<close> as a chain of tests. The second and third clause for \<open>2001\<close> have no
  branch of their own: the first clause has already taken every code equal to \<open>2001\<close>.
\<close>

lemma switch_on_unfold:
  "switch_on code status m =
    (if code = ''400.008.01'' then Inr (msg_400_008_01 m)
     else if code = ''400.008.02'' then Inr (msg_400_008_02 m)
     else if code = ''404.001.04'' then Inr (msg_404_001_04 m)
     else if code = ''400.002.05'' then Inr (msg_400_002_05 m)
     else if code = ''400.003.01'' then Inr (msg_400_003_01 m)
     else if code = ''1'' then Inr msg_1
     else if code = ''1001'' then Inr msg_1001
     else if code = ''1019'' then Inr msg_1019
     else if code = ''1025'' then Inr msg_1025
     else if code = ''1032'' then Inr msg_1032
     else if code = ''1037'' then Inr msg_1037
     else if code = ''2001'' then Inr msg_2001
     else if code = ''15'' then Inr msg_15
     else if code = ''17'' then Inr msg_17
     else if code = ''18'' then Inr msg_18
     else if code = ''20'' then Inr msg_20
     else if code = ''21'' then Inr msg_21
     else if code = ''26'' then Inr msg_26
     else if code = ''4102'' then Inr msg_4102
     else if code = ''4104'' then Inr msg_4104
     else if code = ''4201'' then Inr msg_4201_4203
     else if code = ''4203'' then Inr msg_4201_4203
     else if code = ''500.003.1001'' then case_500_003_1001 m
     else if code = ''409'' then case_409 m
     else Inr (msg_default status m))"
  by (simp add: switch_on_def switch_cases_def default_case_def)

lemma third_is_second: "msg_2001_third = msg_2001_second"
  by (simp add: msg_2001_third_def msg_2001_second_def)

lemma case_500_003_1001_not_second: "case_500_003_1001 m \<noteq> Inr msg_2001_second"
  by (cases "js_includes m ''already registered''";
      cases "js_includes m ''Duplicate notification info''")
     (simp_all add: case_500_003_1001_def msg_2001_second_def msg_already_registered_def
        msg_duplicate_notification_def msg_500_003_1001_other_def)

lemma case_409_not_second: "case_409 m \<noteq> Inr msg_2001_second"
  by (cases "js_includes m ''Biller already Registered''";
      cases "js_includes m ''Invalid consumerkey/shortcode''";
      cases "js_includes m ''Another entry exist''";
      cases "js_includes m ''Incorrect phone number format''";
      cases "js_includes m ''Incorrect due date format''";
      cases "js_includes m ''cannot be cancelled''")
     (simp_all add: case_409_def msg_2001_second_def msg_biller_registered_def
        msg_invalid_consumerkey_def msg_another_entry_def msg_phone_format_def
        msg_due_date_format_def msg_cannot_be_cancelled_def msg_409_other_def)

lemma switch_never_second: "switch_on code st m \<noteq> Inr msg_2001_second"
  unfolding switch_on_unfold
  by (simp add: case_500_003_1001_not_second case_409_not_second)
     (simp add: msg_2001_second_def msg_400_008_01_def msg_400_008_02_def msg_404_001_04_def
        msg_400_002_05_def msg_400_003_01_def msg_1_def msg_1001_def msg_1019_def msg_1025_def
        msg_1032_def msg_1037_def msg_2001_def msg_15_def msg_17_def msg_18_def msg_20_def
        msg_21_def msg_26_def msg_4102_def msg_4104_def msg_4201_4203_def msg_default_def)

lemma three_labels: "length (filter (\<lambda>cl. fst cl = ''2001'') switch_cases) = 3"
  by (simp add: switch_cases_def)

lemma toString_2001: "toString (JNum 2001) = ''2001''"
  by code_simp

text \<open>
  Claim C10. Whenever the server answered and the extracted error code, written as a
  string, is \<open>2001\<close>, the normalizer returns the "Invalid PIN" message, whatever the status
  and the message are. The \<open>switch\<close> has three clauses labelled \<open>2001\<close>; the first one
  wins, and the "Invalid Initiator Information" message of the two later clauses, which
  differs from the "Invalid PIN" message, is the result for no code, status and message at
  all.
\<close>

theorem code_2001_first_label_wins:
  assumes "server_responded error status data"
    and "extractErrorCode data = Inr errorCode"
    and "toString errorCode = ''2001''"
  shows "handleError error = Inr (Error msg_2001)
       \<and> length (filter (\<lambda>cl. fst cl = ''2001'') switch_cases) = 3
       \<and> msg_2001 \<noteq> msg_2001_second \<and> msg_2001 \<noteq> msg_2001_third
       \<and> (\<forall>code st m. switch_on code st m \<noteq> Inr msg_2001_second
                      \<and> switch_on code st m \<noteq> Inr msg_2001_third)"
proof -
  obtain m where m: "extractErrorMessage data = Inr m"
    using extractErrorMessage_defined assms(2) by blast
  have "handleError error = Inr (Error msg_2001)"
    by (simp add: handleError_responded [OF assms(1)] assms(2,3) m switch_on_unfold)
  moreover have "msg_2001 \<noteq> msg_2001_second"
    by (simp add: msg_2001_def msg_2001_second_def)
  ultimately show ?thesis
    by (simp add: three_labels third_is_second switch_never_second)
qed

theorem code_2001_first_label_wins_witness:
  "handleError failure_2001 = Inr (Error msg_2001)"
proof -
  have r: "server_responded failure_2001 (JNum 500)
             (JObj [(''ResultCode'', JNum 2001),
                    (''ResultDesc'', JStr ''The initiator information is invalid.'')])"
    by (simp add: server_responded_def failure_2001_def)
  have c: "extractErrorCode (JObj [(''ResultCode'', JNum 2001),
                    (''ResultDesc'', JStr ''The initiator information is invalid.'')])
           = Inr (JNum 2001)"
    by (simp add: extractErrorCode_def)
  show ?thesis
    using code_2001_first_label_wins [OF r c toString_2001] by simp
qed





lemma case_500_003_1001_string:
  "case_500_003_1001 (JStr m) = Inr (decided_500_003_1001 m)"
  by (simp add: case_500_003_1001_def phrases_500_003_1001_def msg_500_003_1001_other_def
        decided_500_003_1001_def)

lemma case_409_string: "case_409 (JStr m) = Inr (decided_409 m)"
  by (simp add: case_409_def phrases_409_def msg_409_other_def decided_409_def)

text \<open>
  Claim C8. For the codes \<open>500.003.1001\<close> and \<open>409\<close> and a message that is a string,
  the known phrases are tested as substrings of the message in their fixed order and the
  first phrase that occurs decides the user message; when none occurs, the result is the
  fallback of that code, which contains the message.
\<close>

theorem phrase_disambiguation:
  "switch_on ''500.003.1001'' status (JStr m) = Inr (decided_500_003_1001 m)
   \<and> switch_on ''409'' status (JStr m) = Inr (decided_409 m)
   \<and> (\<forall>error data code.
         server_responded error status data \<and> extractErrorCode data = Inr code
         \<and> extractErrorMessage data = Inr (JStr m) \<and> toString code = ''500.003.1001''
         \<longrightarrow> handleError error = Inr (Error (decided_500_003_1001 m)))
   \<and> (\<forall>error data code.
         server_responded error status data \<and> extractErrorCode data = Inr code
         \<and> extractErrorMessage data = Inr (JStr m) \<and> toString code = ''409''
         \<longrightarrow> handleError error = Inr (Error (decided_409 m)))"
proof (intro conjI allI impI)
  show s1: "switch_on ''500.003.1001'' status (JStr m) = Inr (decided_500_003_1001 m)"
    by (simp add: switch_on_unfold case_500_003_1001_string)
  show s2: "switch_on ''409'' status (JStr m) = Inr (decided_409 m)"
    by (simp add: switch_on_unfold case_409_string)
  {
    fix error data code
    assume a: "server_responded error status data \<and> extractErrorCode data = Inr code
         \<and> extractErrorMessage data = Inr (JStr m) \<and> toString code = ''500.003.1001''"
    then have r: "server_responded error status data"
      by simp
    from a show "handleError error = Inr (Error (decided_500_003_1001 m))"
      by (simp add: handleError_responded [OF r] s1)
  }
  {
    fix error data code
    assume a: "server_responded error status data \<and> extractErrorCode data = Inr code
         \<and> extractErrorMessage data = Inr (JStr m) \<and> toString code = ''409''"
    then have r: "server_responded error status data"
      by simp
    from a show "handleError error = Inr (Error (decided_409 m))"
      by (simp add: handleError_responded [OF r] s2)
  }
qed

theorem phrase_disambiguation_witness:
  "handleError failure_409 = Inr (Error msg_biller_registered)
   \<and> handleError failure_500_003_1001 =
       Inr (Error ''An internal server error occurred at the API. Please try again later. Details: Service is down'')"
proof -
  let ?m1 = "''Biller already Registered; invoice cannot be cancelled''"
  let ?d1 = "JObj [(''errorCode'', JStr ''409''), (''errorMessage'', JStr ?m1)]"
  let ?d2 = "JObj [(''errorCode'', JStr ''500.003.1001''),
                   (''errorMessage'', JStr ''Service is down'')]"
  have r1: "server_responded failure_409 (JNum 409) ?d1"
    by (simp add: server_responded_def failure_409_def)
  have c1: "extractErrorCode ?d1 = Inr (JStr ''409'')"
    by (simp add: extractErrorCode_def)
  have m1: "extractErrorMessage ?d1 = Inr (JStr ?m1)"
    by (simp add: extractErrorMessage_def)
  have f1: "decided_409 ?m1 = msg_biller_registered"
    by (simp add: decided_409_def phrases_409_def sublist_code(3))
  have r2: "server_responded failure_500_003_1001 (JNum 500) ?d2"
    by (simp add: server_responded_def failure_500_003_1001_def)
  have c2: "extractErrorCode ?d2 = Inr (JStr ''500.003.1001'')"
    by (simp add: extractErrorCode_def)
  have m2: "extractErrorMessage ?d2 = Inr (JStr ''Service is down'')"
    by (simp add: extractErrorMessage_def)
  have f2: "decided_500_003_1001 ''Service is down'' =
      ''An internal server error occurred at the API. Please try again later. Details: Service is down''"
    by (simp add: decided_500_003_1001_def phrases_500_003_1001_def sublist_code(3))
  note T1 = phrase_disambiguation [of "JNum 409" ?m1]
  note T2 = phrase_disambiguation [of "JNum 500" "''Service is down''"]
  have a: "handleError failure_409 = Inr (Error msg_biller_registered)"
    using T1 [THEN conjunct2, THEN conjunct2, THEN conjunct2, rule_format,
              of failure_409 ?d1 "JStr ''409''"] r1 c1 m1 f1
    by simp
  have b: "handleError failure_500_003_1001 =
       Inr (Error ''An internal server error occurred at the API. Please try again later. Details: Service is down'')"
    using T2 [THEN conjunct2, THEN conjunct2, THEN conjunct1, rule_format,
              of failure_500_003_1001 ?d2 "JStr ''500.003.1001''"] r2 c2 m2 f2
    by simp
  from a b show ?thesis by simp
qed

text \<open>
  Claim C3. The normalizer is meant to return a descriptive error for every failure it is
  given. It does not: when the server answers with the body \<open>null\<close>, reading
  \<open>data.errorCode\<close> throws, and when a code with a phrase table comes with a message that
  is not a string, \<open>errorMessage.includes\<close> is not callable. In both cases the normalizer
  itself ends with a \<open>TypeError\<close>.
\<close>

theorem normalizer_throws:
  "handleError null_body_failure =
     Inl (TypeError ''Cannot read properties of null (reading 'errorCode')'')
   \<and> handleError numeric_message_failure =
     Inl (TypeError ''errorMessage.includes is not a function'')"
  by (simp add: null_body_failure_def numeric_message_failure_def handleError_def
        extractErrorCode_def extractErrorMessage_def switch_on_unfold case_409_def)

subsection \<open>The token cache and the dispatcher\<close>

lemma trace_after_guard [simp]: "trace (after_guard c w) = trace w"
  by (simp add: after_guard_def)


lemma getAuthToken_rejected:
  "\<not> cache_hit e c w \<Longrightarrow> axios_reply e (length (trace w)) = Rejected error \<Longrightarrow>
   getAuthToken e c w =
     (Inl (throw_handleError error), c,
      (after_guard c w)\<lparr>trace := trace w @ [token_request c]\<rparr>)"
  by (simp add: getAuthToken_def Let_def)

lemma makeRequest_rejected:
  "getAuthToken e c w = (Inr tok, c1, w1) \<Longrightarrow>
   axios_reply e (length (trace w1)) = Rejected error \<Longrightarrow>
   makeRequest e c w endpoint body =
     (Inl (throw_handleError error), c1,
      w1\<lparr>trace := trace w1 @ [target_request c1 tok endpoint body]\<rparr>)"
  by (simp add: makeRequest_def Let_def)

lemma handleError_no_response:
  "no_response_received error \<Longrightarrow> handleError error = Inr (Error msg_no_response)"
  by (auto simp: no_response_received_def handleError_def split: sum.splits)

lemma test_client_cold [simp]: "\<not> cache_hit e test_client w"
  by (simp add: cache_hit_def test_client_def)

lemma destructure_token_reply:
  "andThen (getProp token_reply ''data'') destructure_token = Inr (JStr ''api_token'', JNum 3599)"
  by (simp add: token_reply_def destructure_token_def)

text \<open>
  Claim C9. A failure whose request was sent and never answered is normalized to one fixed
  error with one fixed message. The normalizer is not told which endpoint was called: the
  token fetch and a dispatch to any endpoint with any body are rejected with that same
  error.
\<close>

theorem no_response_is_unreachable:
  assumes "no_response_received error"
  shows "handleError error = Inr (Error msg_no_response)
     \<and> (\<forall>e c w. \<not> cache_hit e c w \<and> axios_reply e (length (trace w)) = Rejected error
          \<longrightarrow> outcome (getAuthToken e c w) = Inl (Error msg_no_response))
     \<and> (\<forall>e c w endpoint body tok c1 w1.
           getAuthToken e c w = (Inr tok, c1, w1)
           \<and> axios_reply e (length (trace w1)) = Rejected error
          \<longrightarrow> outcome (makeRequest e c w endpoint body) = Inl (Error msg_no_response))"
proof -
  have h: "handleError error = Inr (Error msg_no_response)"
    using assms by (rule handleError_no_response)
  then have t: "throw_handleError error = Error msg_no_response"
    by (simp add: throw_handleError_def)
  show ?thesis
    by (simp add: h t outcome_def getAuthToken_rejected makeRequest_rejected)
qed

theorem no_response_is_unreachable_witness:
  "handleError silent_error = Inr (Error msg_no_response)
   \<and> outcome (getAuthToken silent_env test_client fresh_world) = Inl (Error msg_no_response)
   \<and> outcome (makeRequest answered_once_env test_client fresh_world
                 ''/mpesa/stkpush/v1/processrequest'' JNull) = Inl (Error msg_no_response)"
proof -
  have n: "no_response_received silent_error"
    by (simp add: no_response_received_def silent_error_def)
  note T = no_response_is_unreachable [OF n]
  have r1: "axios_reply silent_env (length (trace fresh_world)) = Rejected silent_error"
    by (simp add: silent_env_def)
  have "\<exists>tok c1 w1. getAuthToken answered_once_env test_client fresh_world = (Inr tok, c1, w1)
           \<and> length (trace w1) = 1"
    by (simp add: getAuthToken_def answered_once_env_def fresh_world_def Let_def
          destructure_token_reply after_guard_def)
  then obtain tok c1 w1
    where g: "getAuthToken answered_once_env test_client fresh_world = (Inr tok, c1, w1)"
      and tr: "length (trace w1) = 1"
    by blast
  have r2: "axios_reply answered_once_env (length (trace w1)) = Rejected silent_error"
    by (simp add: tr answered_once_env_def)
  from T r1 g r2 show ?thesis
    using test_client_cold by blast
qed

subsection \<open>Construction\<close>

lemma valid_credentials_defined:
  "valid_credentials options \<Longrightarrow> options \<noteq> JUndefined \<and> options \<noteq> JNull"
  by (cases options) (simp_all add: valid_credentials_def field_def)

lemma BASE_URLS_get_sandbox: "BASE_URLS_get (JStr ''sandbox'') = JStr ''https://sandbox.safaricom.co.ke''"
  by (simp add: BASE_URLS_get_def BASE_URLS_def)

lemma BASE_URLS_get_unknown:
  "s \<notin> {''sandbox'', ''production''} \<Longrightarrow> s \<notin> fst ` set Object_prototype \<Longrightarrow>
   BASE_URLS_get (JStr s) = JUndefined"
proof -
  assume a: "s \<notin> {''sandbox'', ''production''}" and b: "s \<notin> fst ` set Object_prototype"
  from a have "map_of BASE_URLS s = None"
    by (simp add: BASE_URLS_def)
  moreover from b have "map_of Object_prototype s = None"
    by (simp add: map_of_eq_None_iff)
  ultimately show ?thesis
    by (simp add: BASE_URLS_get_def)
qed

text \<open>The options of the test suite construct the sample client.\<close>

lemma constructor_test_options: "constructor test_options = Inr test_client"
  by (simp add: test_options_def test_client_def constructor_def js_or_def BASE_URLS_get_sandbox)

text \<open>
  Two strings other than \<open>sandbox\<close> and \<open>production\<close> for which a client is
  constructed all the same. The empty string is falsy, and
  \<open>options.environment || "sandbox"\<close> takes every falsy value for an omitted one. The
  name \<open>constructor\<close> is inherited by \<open>BASE_URLS\<close> from \<open>Object.prototype\<close>:
  the lookup answers a function, which is truthy, and that function becomes the base URL.
\<close>

theorem unrecognized_environments_accepted:
  "valid_credentials empty_environment_options
   \<and> field empty_environment_options ''environment'' = JStr []
   \<and> constructor empty_environment_options = Inr (sandbox_client empty_environment_options)
   \<and> valid_credentials inherited_environment_options
   \<and> field inherited_environment_options ''environment'' = JStr ''constructor''
   \<and> constructor inherited_environment_options =
       Inr ((sandbox_client inherited_environment_options)
              \<lparr>environment := JStr ''constructor'', baseUrl := JFun ''Object''\<rparr>)"
proof -
  have "constructor empty_environment_options = Inr (sandbox_client empty_environment_options)"
    by (simp add: empty_environment_options_def constructor_def js_or_def
          BASE_URLS_get_sandbox sandbox_client_def field_def)
  moreover have "constructor inherited_environment_options =
       Inr ((sandbox_client inherited_environment_options)
              \<lparr>environment := JStr ''constructor'', baseUrl := JFun ''Object''\<rparr>)"
    by (simp add: inherited_environment_options_def constructor_def js_or_def
          BASE_URLS_get_def BASE_URLS_def Object_prototype_def Object_prototype_methods_def
          sandbox_client_def field_def)
  ultimately show ?thesis
    by (simp add: empty_environment_options_def inherited_environment_options_def
          valid_credentials_def field_def)
qed

text \<open>
  Claim C4, amended. For valid credentials (key, secret and shortcode truthy), a client
  constructed with the environment omitted, or given as any falsy value such as the empty
  string, is the sandbox client, whose base URL is the sandbox URL. Construction fails with
  the "Invalid environment specified" error when the environment is a non-empty string that
  is neither \<open>sandbox\<close> nor \<open>production\<close> nor a property name inherited from
  \<open>Object.prototype\<close>.
\<close>

theorem environment_selection:
  assumes "valid_credentials options"
  shows "(\<not> truthy (field options ''environment'')
            \<longrightarrow> constructor options = Inr (sandbox_client options))
       \<and> (\<forall>s. field options ''environment'' = JStr s \<and> s \<noteq> []
               \<and> s \<notin> {''sandbox'', ''production''} \<and> s \<notin> fst ` set Object_prototype
            \<longrightarrow> constructor options =
                  Inl (Error (''Invalid environment specified: '' @ s
                              @ ''. Use 'sandbox' or 'production'.'')))"
proof -
  from assms have d: "options \<noteq> JUndefined \<and> options \<noteq> JNull"
    by (rule valid_credentials_defined)
  then have g: "\<And>k. getProp options k = Inr (field options k)"
    by (simp add: getProp_field)
  from assms have v: "truthy (field options ''consumerKey'')"
    "truthy (field options ''consumerSecret'')" "truthy (field options ''shortCode'')"
    by (simp_all add: valid_credentials_def)
  have a: "\<not> truthy (field options ''environment'')
            \<longrightarrow> constructor options = Inr (sandbox_client options)"
    by (simp add: constructor_def g v js_or_def BASE_URLS_get_sandbox sandbox_client_def)
  have b: "\<forall>s. field options ''environment'' = JStr s \<and> s \<noteq> []
               \<and> s \<notin> {''sandbox'', ''production''} \<and> s \<notin> fst ` set Object_prototype
            \<longrightarrow> constructor options =
                  Inl (Error (''Invalid environment specified: '' @ s
                              @ ''. Use 'sandbox' or 'production'.''))"
  proof (intro allI impI)
    fix s
    assume h: "field options ''environment'' = JStr s \<and> s \<noteq> []
               \<and> s \<notin> {''sandbox'', ''production''} \<and> s \<notin> fst ` set Object_prototype"
    then have u: "BASE_URLS_get (JStr s) = JUndefined"
      by (simp add: BASE_URLS_get_unknown)
    from h show "constructor options =
                  Inl (Error (''Invalid environment specified: '' @ s
                              @ ''. Use 'sandbox' or 'production'.''))"
      by (simp add: constructor_def g v js_or_def u)
  qed
  from a b show ?thesis by simp
qed

theorem environment_selection_witness:
  "constructor omitted_environment_options = Inr (sandbox_client omitted_environment_options)
   \<and> baseUrl (sandbox_client omitted_environment_options) = JStr ''https://sandbox.safaricom.co.ke''
   \<and> constructor invalid_environment_options =
       Inl (Error ''Invalid environment specified: invalid. Use 'sandbox' or 'production'.'')"
proof -
  have v1: "valid_credentials omitted_environment_options"
    by (simp add: valid_credentials_def omitted_environment_options_def field_def)
  have v2: "valid_credentials invalid_environment_options"
    by (simp add: valid_credentials_def invalid_environment_options_def field_def)
  have f1: "\<not> truthy (field omitted_environment_options ''environment'')"
    by (simp add: omitted_environment_options_def field_def)
  have f2: "field invalid_environment_options ''environment'' = JStr ''invalid''"
    by (simp add: invalid_environment_options_def field_def)
  have n: "''invalid'' \<notin> fst ` set Object_prototype"
    by (simp add: Object_prototype_def Object_prototype_methods_def)
  have a: "constructor omitted_environment_options = Inr (sandbox_client omitted_environment_options)"
    using environment_selection [OF v1] f1 by blast
  have b: "constructor invalid_environment_options =
       Inl (Error (''Invalid environment specified: '' @ ''invalid''
                   @ ''. Use 'sandbox' or 'production'.''))"
    using environment_selection [OF v2, THEN conjunct2, rule_format, of "''invalid''"] f2 n
    by simp
  from a b show ?thesis
    by (simp add: sandbox_client_def)
qed

subsection \<open>Operations\<close>

text \<open>
  Claim C5. Each of the two passkey operations and of the seven initiator operations,
  invoked on a client whose required credential is missing (falsy), is rejected with its
  configuration error; the client and the world are returned unchanged, so no token call,
  no target call and no clock read has happened.
\<close>

theorem missing_credential_fails_before_network:
  assumes "missing_credential operation c"
  shows "invoke operation e c w params = (Inl (configuration_error operation), c, w)
       \<and> trace (world_after (invoke operation e c w params)) = trace w"
proof -
  have "invoke operation e c w params = (Inl (configuration_error operation), c, w)"
    using assms
    by (cases operation)
       (simp_all add: missing_credential_def stkPush_def stkQuery_def b2c_def
          transactionStatus_def accountBalance_def reversal_def taxRemittance_def b2b_def
          b2cAccountTopUp_def)
  then show ?thesis
    by (simp add: world_after_def)
qed

theorem missing_credential_fails_before_network_witness:
  "invoke StkPush test_env (test_client\<lparr>passkey := JUndefined\<rparr>) fresh_world (JObj [])
     = (Inl (Error ''Passkey is required for STK Push.''), test_client\<lparr>passkey := JUndefined\<rparr>,
        fresh_world)
   \<and> invoke B2c test_env (test_client\<lparr>initiatorName := JUndefined\<rparr>) fresh_world (JObj [])
     = (Inl (Error ''InitiatorName and SecurityCredential are required for B2C transactions.''),
        test_client\<lparr>initiatorName := JUndefined\<rparr>, fresh_world)"
proof -
  have m1: "missing_credential StkPush (test_client\<lparr>passkey := JUndefined\<rparr>)"
    by (simp add: missing_credential_def)
  have m2: "missing_credential B2c (test_client\<lparr>initiatorName := JUndefined\<rparr>)"
    by (simp add: missing_credential_def)
  from missing_credential_fails_before_network [OF m1]
       missing_credential_fails_before_network [OF m2]
  show ?thesis by simp
qed

subsection \<open>Timestamp and password\<close>

lemma decimal_digit: "n < 10 \<Longrightarrow> decimal n rest = digit_char n # rest"
  by (simp add: decimal.simps)

lemma decimal_step:
  "10 \<le> n \<Longrightarrow> decimal n rest = decimal (n div 10) (digit_char (n mod 10) # rest)"
  by (subst decimal.simps) simp

lemma digit_char_0: "digit_char 0 = CHR ''0''"
  by (simp add: digit_char_def)

lemma fixed_width_2:
  "fixed_width 2 n = [digit_char (n div 10 mod 10), digit_char (n mod 10)]"
proof -
  have e: "(2::nat) = Suc (Suc 0)"
    by simp
  show ?thesis
    by (subst e) simp
qed

lemma fixed_width_4:
  "fixed_width 4 n =
     [digit_char (n div 10 div 10 div 10 mod 10), digit_char (n div 10 div 10 mod 10),
      digit_char (n div 10 mod 10), digit_char (n mod 10)]"
proof -
  have e: "(4::nat) = Suc (Suc (Suc (Suc 0)))"
    by simp
  show ?thesis
    by (subst e) simp
qed

lemma padStart_short: "padStart 2 ''0'' [x] = [CHR ''0'', x]"
  by (simp add: padStart_def)

lemma padStart_full: "padStart 2 ''0'' [x, y] = [x, y]"
  by (simp add: padStart_def)

lemma two_digits:
  assumes "0 \<le> i" and "i < 100"
  shows "padStart 2 ''0'' (toString (JNum i)) = fixed_width 2 (nat i)"
proof (cases "i < 10")
  case True
  with assms have "toString (JNum i) = [digit_char (nat i)]"
    by (simp add: number_toString_def decimal_digit)
  moreover from True assms have "nat i div 10 = 0" "nat i mod 10 = nat i"
    by auto
  ultimately show ?thesis
    by (simp add: padStart_short fixed_width_2 digit_char_0)
next
  case False
  with assms have n: "10 \<le> nat i" "nat i div 10 < 10"
    by auto
  from assms have "toString (JNum i) = decimal (nat i) []"
    by (simp add: number_toString_def)
  also have "\<dots> = [digit_char (nat i div 10), digit_char (nat i mod 10)]"
    using n by (simp add: decimal_step decimal_digit)
  finally show ?thesis
    using n by (simp add: padStart_full fixed_width_2)
qed

lemma four_digits:
  assumes "1000 \<le> i" and "i \<le> 9999"
  shows "toString (JNum i) = fixed_width 4 (nat i)"
proof -
  define n where "n = nat i"
  from assms have b: "1000 \<le> n" "n < 10000"
    by (auto simp: n_def)
  then have s: "10 \<le> n" "10 \<le> n div 10" "10 \<le> n div 10 div 10" "n div 10 div 10 div 10 < 10"
    by auto
  from assms have "toString (JNum i) = decimal n []"
    by (simp add: number_toString_def n_def)
  also have "\<dots> = [digit_char (n div 10 div 10 div 10), digit_char (n div 10 div 10 mod 10),
                   digit_char (n div 10 mod 10), digit_char (n mod 10)]"
    using s by (simp add: decimal_step decimal_digit)
  also have "\<dots> = fixed_width 4 n"
    using s(4) by (simp add: fixed_width_4)
  finally show ?thesis
    by (simp add: n_def)
qed

lemma getTimestamp_format:
  assumes "calendar_date d"
  shows "getTimestamp d = YYYYMMDDHHMMSS d"
proof -
  from assms have y: "toString (JNum (getFullYear d)) = fixed_width 4 (nat (getFullYear d))"
    by (intro four_digits) (simp_all add: calendar_date_def)
  from assms have m: "padStart 2 ''0'' (toString (JNum (getMonth d + 1)))
                      = fixed_width 2 (nat (getMonth d + 1))"
    by (intro two_digits) (simp_all add: calendar_date_def)
  from assms have dd: "padStart 2 ''0'' (toString (JNum (getDate d))) = fixed_width 2 (nat (getDate d))"
    by (intro two_digits) (simp_all add: calendar_date_def)
  from assms have h: "padStart 2 ''0'' (toString (JNum (getHours d))) = fixed_width 2 (nat (getHours d))"
    by (intro two_digits) (simp_all add: calendar_date_def)
  from assms have mi: "padStart 2 ''0'' (toString (JNum (getMinutes d)))
                       = fixed_width 2 (nat (getMinutes d))"
    by (intro two_digits) (simp_all add: calendar_date_def)
  from assms have se: "padStart 2 ''0'' (toString (JNum (getSeconds d)))
                       = fixed_width 2 (nat (getSeconds d))"
    by (intro two_digits) (simp_all add: calendar_date_def)
  show ?thesis
    unfolding getTimestamp_def YYYYMMDDHHMMSS_def Let_def y m dd h mi se ..
qed


lemma makeRequest_trace:
  assumes "getAuthToken e c w = (Inr tok, c1, w1)"
  shows "trace (world_after (makeRequest e c w endpoint body)) =
           trace w1 @ [target_request c1 tok endpoint body]"
  using assms
  by (simp add: makeRequest_def world_after_def Let_def split: http_result.splits sum.splits)

lemma makeRequest_outgoing:
  assumes "outcome (getAuthToken e c w) = Inr tok"
  shows "outgoing_field (world_after (makeRequest e c w endpoint body)) k = Some (field body k)"
proof -
  obtain c1 w1 where g: "getAuthToken e c w = (Inr tok, c1, w1)"
    using assms by (cases "getAuthToken e c w") (auto simp: outcome_def)
  show ?thesis
    by (simp add: outgoing_field_def makeRequest_trace [OF g] target_request_def)
qed

lemma stkPush_body_fields:
  assumes "params \<noteq> JUndefined" and "params \<noteq> JNull"
  shows "\<exists>body. stkPush_body c password timestamp params = Inr body
           \<and> field body ''Password'' = JStr password
           \<and> field body ''Timestamp'' = JStr timestamp"
  using assms by (simp add: stkPush_body_def getProp_field field_def)

lemma stkQuery_body_fields:
  assumes "params \<noteq> JUndefined" and "params \<noteq> JNull"
  shows "\<exists>body. stkQuery_body c password timestamp params = Inr body
           \<and> field body ''Password'' = JStr password
           \<and> field body ''Timestamp'' = JStr timestamp"
  using assms by (simp add: stkQuery_body_def getProp_field field_def)

lemma concat_strings:
  "toString (js_add (js_add (JStr a) (JStr b)) (JStr t)) = a @ b @ t"
  by (simp add: js_add_def)

lemma base64_sample:
  "base64 ''600988test_passkey20230101000000'' = ''NjAwOTg4dGVzdF9wYXNza2V5MjAyMzAxMDEwMDAwMDA=''"
  by code_simp

text \<open>
  Claim C6. For a string shortcode and a non-empty string passkey, a call instant whose
  local date has a four-digit year, parameters that can be read and a token that is
  obtained, the body that \<open>stkPush\<close> and \<open>stkQuery\<close> send carries the timestamp in the
  format \<open>YYYYMMDDHHMMSS\<close> and the password \<open>base64(shortCode + passkey + timestamp)\<close>.
  For the shortcode \<open>600988\<close>, the passkey \<open>test_passkey\<close> and the timestamp
  \<open>20230101000000\<close> the password is the Base64 text of
  \<open>600988test_passkey20230101000000\<close>.
\<close>

theorem password_derivation:
  assumes "shortCode c = JStr sc" and "passkey c = JStr pk" and "pk \<noteq> []"
    and "calendar_date (new_Date e (ticks w))"
    and "params \<noteq> JUndefined" and "params \<noteq> JNull"
    and "outcome (getAuthToken e c (w\<lparr>ticks := ticks w + 1\<rparr>)) = Inr tok"
  shows "getTimestamp (new_Date e (ticks w)) = YYYYMMDDHHMMSS (new_Date e (ticks w))
     \<and> outgoing_field (world_after (stkPush e c w params)) ''Password''
         = Some (JStr (base64 (sc @ pk @ YYYYMMDDHHMMSS (new_Date e (ticks w)))))
     \<and> outgoing_field (world_after (stkPush e c w params)) ''Timestamp''
         = Some (JStr (YYYYMMDDHHMMSS (new_Date e (ticks w))))
     \<and> outgoing_field (world_after (stkQuery e c w params)) ''Password''
         = Some (JStr (base64 (sc @ pk @ YYYYMMDDHHMMSS (new_Date e (ticks w)))))
     \<and> outgoing_field (world_after (stkQuery e c w params)) ''Timestamp''
         = Some (JStr (YYYYMMDDHHMMSS (new_Date e (ticks w))))
     \<and> base64 (''600988'' @ ''test_passkey'' @ ''20230101000000'')
         = ''NjAwOTg4dGVzdF9wYXNza2V5MjAyMzAxMDEwMDAwMDA=''"
proof -
  let ?ts = "getTimestamp (new_Date e (ticks w))"
  let ?pw = "base64 (sc @ pk @ ?ts)"
  let ?w1 = "w\<lparr>ticks := ticks w + 1\<rparr>"
  have t: "?ts = YYYYMMDDHHMMSS (new_Date e (ticks w))"
    using assms(4) by (rule getTimestamp_format)
  obtain b1 where b1: "stkPush_body c ?pw ?ts params = Inr b1"
    "field b1 ''Password'' = JStr ?pw" "field b1 ''Timestamp'' = JStr ?ts"
    using stkPush_body_fields [OF assms(5,6)] by blast
  obtain b2 where b2: "stkQuery_body c ?pw ?ts params = Inr b2"
    "field b2 ''Password'' = JStr ?pw" "field b2 ''Timestamp'' = JStr ?ts"
    using stkQuery_body_fields [OF assms(5,6)] by blast
  have p: "stkPush e c w params = makeRequest e c ?w1 ''/mpesa/stkpush/v1/processrequest'' b1"
    using assms(1,2,3) b1(1) by (simp add: stkPush_def Let_def concat_strings)
  have q: "stkQuery e c w params = makeRequest e c ?w1 ''/mpesa/stkpushquery/v1/query'' b2"
    using assms(1,2,3) b2(1) by (simp add: stkQuery_def Let_def concat_strings)
  have "outgoing_field (world_after (stkPush e c w params)) ''Password'' = Some (JStr ?pw)"
    "outgoing_field (world_after (stkPush e c w params)) ''Timestamp'' = Some (JStr ?ts)"
    "outgoing_field (world_after (stkQuery e c w params)) ''Password'' = Some (JStr ?pw)"
    "outgoing_field (world_after (stkQuery e c w params)) ''Timestamp'' = Some (JStr ?ts)"
    by (simp_all only: p q makeRequest_outgoing [OF assms(7)] b1(2,3) b2(2,3))
  with t show ?thesis
    using base64_sample by simp
qed

lemma timestamp_new_year: "YYYYMMDDHHMMSS new_year_2023 = ''20230101000000''"
  by (simp add: YYYYMMDDHHMMSS_def new_year_2023_def fixed_width_2 fixed_width_4 digit_char_def)

theorem password_derivation_witness:
  "getTimestamp new_year_2023 = ''20230101000000''
   \<and> outgoing_field (world_after (stkPush test_env test_client fresh_world stk_params)) ''Password''
       = Some (JStr ''NjAwOTg4dGVzdF9wYXNza2V5MjAyMzAxMDEwMDAwMDA='')
   \<and> outgoing_field (world_after (stkPush test_env test_client fresh_world stk_params)) ''Timestamp''
       = Some (JStr ''20230101000000'')"
proof -
  have a1: "shortCode test_client = JStr ''600988''" and a2: "passkey test_client = JStr ''test_passkey''"
    by (simp_all add: test_client_def)
  have a3: "''test_passkey'' \<noteq> []"
    by simp
  have a4: "calendar_date (new_Date test_env (ticks fresh_world))"
    by (simp add: test_env_def calendar_date_def new_year_2023_def)
  have a5: "stk_params \<noteq> JUndefined" and a6: "stk_params \<noteq> JNull"
    by (simp_all add: stk_params_def)
  have a7: "outcome (getAuthToken test_env test_client (fresh_world\<lparr>ticks := ticks fresh_world + 1\<rparr>))
              = Inr (JStr ''api_token'')"
    by (simp add: getAuthToken_def outcome_def test_env_def fresh_world_def Let_def
          destructure_token_reply)
  have d: "new_Date test_env (ticks fresh_world) = new_year_2023"
    by (simp add: test_env_def)
  from password_derivation [OF a1 a2 a3 a4 a5 a6 a7]
  show ?thesis
    by (simp add: d timestamp_new_year base64_sample)
qed

subsection \<open>Reuse and refresh of the token\<close>







lemma calls_Nil [simp]: "token_calls [] = 0" "target_calls [] = 0"
  by (simp_all add: token_calls_def target_calls_def)

lemma token_calls_append [simp]: "token_calls (xs @ ys) = token_calls xs + token_calls ys"
  by (simp add: token_calls_def)

lemma target_calls_append [simp]: "target_calls (xs @ ys) = target_calls xs + target_calls ys"
  by (simp add: target_calls_def)

lemma count_token_request [simp]:
  "token_calls [token_request c] = 1" "target_calls [token_request c] = 0"
  by (simp_all add: token_calls_def target_calls_def token_request_def Let_def)

lemma count_target_request [simp]:
  "token_calls [target_request c tok endpoint body] = 0"
  "target_calls [target_request c tok endpoint body] = 1"
  by (simp_all add: token_calls_def target_calls_def target_request_def)









end
